theory Spec2Isabelle
  imports Complex_Main "HOL-Library.Sublist"
begin

text \<open>
  A model of the products API: the validation and authentication middleware, the
  error responder, the in-memory product store with its seven route handlers, and the
  order in which the router tries the routes. Handlers are functions from the request
  and the store to a response and the new store; an exception or \<^verbatim>\<open>next(error)\<close> is
  a value that the error responder turns into a response.
\<close>

section \<open>JavaScript values\<close>

text \<open>
  The handlers read request bodies produced by \<^verbatim>\<open>express.json()\<close> and store them
  unchanged, so a field can hold any JSON value. Numbers are IEEE doubles in the source;
  here a finite number is the real it denotes, next to \<open>NaN\<close> and the two
  infinities. An array or a plain object is \<open>Obj s\<close>, where \<open>s\<close> is the string its
  conversion to a primitive yields (\<^verbatim>\<open>String([5])\<close> is \<^verbatim>\<open>"5"\<close>): only its type tag,
  its truthiness and that string are ever looked at by the code below.
\<close>

datatype jsnum = NaN | NegInf | Fin real | PosInf

datatype jsval = Undefined | Null | Bool bool | Num jsnum | Str string | Obj string

text \<open>A JavaScript object literal or parsed JSON object: property name to value.\<close>

type_synonym obj = "string \<rightharpoonup> jsval"

text \<open>Property read \<^verbatim>\<open>o.k\<close>: \<^verbatim>\<open>undefined\<close> when the property is absent.\<close>

definition field :: "obj \<Rightarrow> string \<Rightarrow> jsval" where
  "field ob k = (case ob k of None \<Rightarrow> Undefined | Some v \<Rightarrow> v)"

text \<open>Truthiness, as \<^verbatim>\<open>!x\<close>, \<^verbatim>\<open>x && y\<close>, \<^verbatim>\<open>x || y\<close> and \<^verbatim>\<open>if (x)\<close> test it.\<close>

fun truthy :: "jsval \<Rightarrow> bool" where
  "truthy Undefined = False"
| "truthy Null = False"
| "truthy (Bool b) = b"
| "truthy (Num NaN) = False"
| "truthy (Num (Fin r)) = (r \<noteq> 0)"
| "truthy (Num NegInf) = True"
| "truthy (Num PosInf) = True"
| "truthy (Str s) = (s \<noteq> [])"
| "truthy (Obj s) = True"

text \<open>\<^verbatim>\<open>typeof x === 'string'\<close> and \<^verbatim>\<open>typeof x === 'boolean'\<close>.\<close>

fun is_string :: "jsval \<Rightarrow> bool" where
  "is_string (Str s) = True"
| "is_string v = False"

fun is_boolean :: "jsval \<Rightarrow> bool" where
  "is_boolean (Bool b) = True"
| "is_boolean v = False"


subsection \<open>Strings\<close>

text \<open>
  A JavaScript string is a sequence of UTF-16 code units. The model holds strings whose
  code units are all below 256 (the Latin-1 range), one \<open>char\<close> per code unit; text
  with other characters is outside the model. Below 256 the whitespace that \<^verbatim>\<open>trim\<close>
  and the numeric parsers skip is TAB, LF, VT, FF, CR, space and the no-break space,
  and \<^verbatim>\<open>toLowerCase\<close> changes the letters A to Z and the accented capitals
  \<^verbatim>\<open>U+00C0\<close> to \<^verbatim>\<open>U+00DE\<close> (but not the multiplication sign \<^verbatim>\<open>U+00D7\<close>), each to
  the code unit 32 above it.
\<close>

definition is_space :: "char \<Rightarrow> bool" where
  "is_space c = ((of_char c :: nat) \<in> {9, 10, 11, 12, 13, 32, 160})"

definition trim :: "string \<Rightarrow> string" where
  "trim s = rev (dropWhile is_space (rev (dropWhile is_space s)))"

definition upper_chars :: string where
  "upper_chars =
     ''ABCDEFGHIJKLMNOPQRSTUVWXYZ'' @
       [
        CHR 0xC0, CHR 0xC1, CHR 0xC2, CHR 0xC3, CHR 0xC4, CHR 0xC5, CHR 0xC6, CHR 0xC7,
        CHR 0xC8, CHR 0xC9, CHR 0xCA, CHR 0xCB, CHR 0xCC, CHR 0xCD, CHR 0xCE, CHR 0xCF,
        CHR 0xD0, CHR 0xD1, CHR 0xD2, CHR 0xD3, CHR 0xD4, CHR 0xD5, CHR 0xD6, CHR 0xD8,
        CHR 0xD9, CHR 0xDA, CHR 0xDB, CHR 0xDC, CHR 0xDD, CHR 0xDE]"

definition lower_chars :: string where
  "lower_chars =
     ''abcdefghijklmnopqrstuvwxyz'' @
       [
        CHR 0xE0, CHR 0xE1, CHR 0xE2, CHR 0xE3, CHR 0xE4, CHR 0xE5, CHR 0xE6, CHR 0xE7,
        CHR 0xE8, CHR 0xE9, CHR 0xEA, CHR 0xEB, CHR 0xEC, CHR 0xED, CHR 0xEE, CHR 0xEF,
        CHR 0xF0, CHR 0xF1, CHR 0xF2, CHR 0xF3, CHR 0xF4, CHR 0xF5, CHR 0xF6, CHR 0xF8,
        CHR 0xF9, CHR 0xFA, CHR 0xFB, CHR 0xFC, CHR 0xFD, CHR 0xFE]"

definition lower_char :: "char \<Rightarrow> char" where
  "lower_char c = (case map_of (zip upper_chars lower_chars) c of None \<Rightarrow> c | Some l \<Rightarrow> l)"

definition toLowerCase :: "string \<Rightarrow> string" where
  "toLowerCase s = map lower_char s"

text \<open>\<^verbatim>\<open>hay.includes(needle)\<close>: the needle occurs somewhere in the haystack.\<close>

fun str_includes :: "string \<Rightarrow> string \<Rightarrow> bool" where
  "str_includes [] needle = (needle = [])"
| "str_includes (c # hay) needle = (prefix needle (c # hay) \<or> str_includes hay needle)"

subsection \<open>Numeric conversions\<close>

text \<open>
  A number is kept as the real it denotes. The conversions from text produce the
  double nearest to the value written, ties to the even mantissa, with the gradual
  underflow and the overflow to infinity of the binary64 format.
\<close>

text \<open>The number of binary digits of a natural number.\<close>

fun bit_length :: "nat \<Rightarrow> nat" where
  "bit_length n = (if n = 0 then 0 else Suc (bit_length (n div 2)))"

declare bit_length.simps [simp del]

text \<open>The integer nearest to \<open>num / den\<close>, the even one of two equally near.\<close>

definition round_half_even :: "nat \<Rightarrow> nat \<Rightarrow> nat" where
  "round_half_even num den =
     (let m = num div den; r = num mod den
      in if den < 2 * r \<or> (2 * r = den \<and> odd m) then m + 1 else m)"

text \<open>
  The double nearest to \<open>p / q\<close>, for \<open>q > 0\<close>. With \<open>e\<close> the binary exponent of the
  quotient, but at least -1022, the mantissa is the quotient scaled by \<open>2 ^ (52 - e)\<close>
  and rounded to an integer.
\<close>

definition to_double :: "nat \<Rightarrow> nat \<Rightarrow> jsnum" where
  "to_double p q =
     (if p = 0 then Fin 0
      else
        let d = int (bit_length p) - int (bit_length q);
            e = (if (if 0 \<le> d then q * 2 ^ nat d \<le> p else q \<le> p * 2 ^ nat (- d))
                 then d else d - 1);
            s = 52 - max e (- 1022)
        in if 0 \<le> s
           then Fin (real (round_half_even (p * 2 ^ nat s) q) / 2 ^ nat s)
           else (let v = round_half_even p (q * 2 ^ nat (- s)) * 2 ^ nat (- s)
                 in if 2 ^ 1024 \<le> v then PosInf else Fin (real v)))"

fun negate :: "jsnum \<Rightarrow> jsnum" where
  "negate NaN = NaN"
| "negate NegInf = PosInf"
| "negate (Fin r) = Fin (- r)"
| "negate PosInf = NegInf"

text \<open>The double nearest to \<open>m * 10 ^ e\<close>.\<close>

definition dec_double :: "nat \<Rightarrow> int \<Rightarrow> jsnum" where
  "dec_double m e =
     (if 0 \<le> e then to_double (m * 10 ^ nat e) 1 else to_double m (10 ^ nat (- e)))"

definition is_digit :: "char \<Rightarrow> bool" where
  "is_digit c = (let n = (of_char c :: nat) in 48 \<le> n \<and> n \<le> 57)"

text \<open>The value of a hexadecimal digit; 16 for any other character.\<close>

definition digit_value :: "char \<Rightarrow> nat" where
  "digit_value c =
     (let n = (of_char c :: nat)
      in if 48 \<le> n \<and> n \<le> 57 then n - 48
         else if 97 \<le> n \<and> n \<le> 102 then n - 87
         else if 65 \<le> n \<and> n \<le> 70 then n - 55
         else 16)"

definition is_radix_digit :: "nat \<Rightarrow> char \<Rightarrow> bool" where
  "is_radix_digit radix c = (digit_value c < radix)"

definition digits_value :: "nat \<Rightarrow> string \<Rightarrow> nat" where
  "digits_value radix ds = foldl (\<lambda>a c. radix * a + digit_value c) 0 ds"

definition scan_sign :: "string \<Rightarrow> int \<times> string" where
  "scan_sign s =
     (case s of
        [] \<Rightarrow> (1, s)
      | c # r \<Rightarrow> if c = CHR ''-'' then (- 1, r) else if c = CHR ''+'' then (1, r) else (1, s))"

text \<open>An exponent part \<^verbatim>\<open>e\<close>, optional sign, at least one digit; \<open>None\<close> if there is none.\<close>

definition scan_exponent :: "string \<Rightarrow> (int \<times> string) option" where
  "scan_exponent s =
     (case s of
        [] \<Rightarrow> None
      | c # r \<Rightarrow>
          if c = CHR ''e'' \<or> c = CHR ''E'' then
            (let (sg, r1) = scan_sign r; ds = takeWhile is_digit r1
             in if ds = [] then None
                else Some (sg * int (digits_value 10 ds), dropWhile is_digit r1))
          else None)"

text \<open>
  The longest prefix that is an unsigned decimal literal (\<^verbatim>\<open>12\<close>, \<^verbatim>\<open>12.\<close>, \<^verbatim>\<open>12.5\<close>,
  \<^verbatim>\<open>.5\<close>, each with an optional exponent): its digits as a natural number \<open>m\<close> and
  the decimal exponent \<open>e\<close> such that the literal denotes \<open>m * 10 ^ e\<close>, and the rest
  of the text.
\<close>

definition scan_unsigned :: "string \<Rightarrow> ((nat \<times> int) \<times> string) option" where
  "scan_unsigned s =
     (let d1 = takeWhile is_digit s;
          r1 = dropWhile is_digit s;
          (d2, r2) = (case r1 of
                        [] \<Rightarrow> ([], r1)
                      | c # t \<Rightarrow> if c = CHR ''.''
                                 then (takeWhile is_digit t, dropWhile is_digit t)
                                 else ([], r1))
      in if d1 = [] \<and> d2 = [] then None
         else
           let m = digits_value 10 (d1 @ d2)
           in case scan_exponent r2 of
                None \<Rightarrow> Some ((m, - int (length d2)), r2)
              | Some (e, r3) \<Rightarrow> Some ((m, e - int (length d2)), r3))"

definition scan_literal :: "string \<Rightarrow> (jsnum \<times> string) option" where
  "scan_literal s =
     (let (sg, r) = scan_sign s
      in if prefix ''Infinity'' r then Some (if sg < 0 then NegInf else PosInf, drop 8 r)
         else case scan_unsigned r of
                None \<Rightarrow> None
              | Some ((m, e), r') \<Rightarrow>
                  Some (if sg < 0 then negate (dec_double m e) else dec_double m e, r'))"

text \<open>\<^verbatim>\<open>parseFloat\<close> on a string: leading whitespace, then the longest literal prefix.\<close>

definition parseFloat_str :: "string \<Rightarrow> jsnum" where
  "parseFloat_str s =
     (case scan_literal (dropWhile is_space s) of None \<Rightarrow> NaN | Some (n, r) \<Rightarrow> n)"

text \<open>A \<^verbatim>\<open>0x\<close>, \<^verbatim>\<open>0o\<close> or \<^verbatim>\<open>0b\<close> integer literal, whole string.\<close>

definition radix_literal :: "string \<Rightarrow> jsnum option" where
  "radix_literal t =
     (case t of
        z # x # ds \<Rightarrow>
          (let radix = (if x = CHR ''x'' \<or> x = CHR ''X'' then 16
                        else if x = CHR ''o'' \<or> x = CHR ''O'' then 8
                        else if x = CHR ''b'' \<or> x = CHR ''B'' then 2 else (0::nat))
           in if z = CHR ''0'' \<and> radix \<noteq> 0 \<and> ds \<noteq> [] \<and> list_all (is_radix_digit radix) ds
              then Some (to_double (digits_value radix ds) 1) else None)
      | _ \<Rightarrow> None)"

text \<open>\<^verbatim>\<open>Number(s)\<close> on a string: the whole trimmed text must be a literal; empty is 0.\<close>

definition number_of_string :: "string \<Rightarrow> jsnum" where
  "number_of_string s =
     (let t = trim s
      in if t = [] then Fin 0
         else case radix_literal t of
                Some n \<Rightarrow> n
              | None \<Rightarrow> (case scan_literal t of
                           Some (n, []) \<Rightarrow> n
                         | _ \<Rightarrow> NaN))"

text \<open>\<^verbatim>\<open>Number(x)\<close>, the conversion \<^verbatim>\<open>isNaN\<close> applies to its argument.\<close>

fun toNumber :: "jsval \<Rightarrow> jsnum" where
  "toNumber Undefined = NaN"
| "toNumber Null = Fin 0"
| "toNumber (Bool b) = Fin (if b then 1 else 0)"
| "toNumber (Num n) = n"
| "toNumber (Str s) = number_of_string s"
| "toNumber (Obj s) = number_of_string s"

definition isNaN :: "jsval \<Rightarrow> bool" where
  "isNaN v = (toNumber v = NaN)"

text \<open>
  \<^verbatim>\<open>parseFloat(x)\<close> converts \<open>x\<close> to a string first. A number printed and parsed again
  is the same number; \<^verbatim>\<open>"undefined"\<close>, \<^verbatim>\<open>"null"\<close>, \<^verbatim>\<open>"true"\<close> and \<^verbatim>\<open>"false"\<close> start
  no literal.
\<close>

fun parseFloat :: "jsval \<Rightarrow> jsnum" where
  "parseFloat (Num n) = n"
| "parseFloat (Str s) = parseFloat_str s"
| "parseFloat (Obj s) = parseFloat_str s"
| "parseFloat v = NaN"

text \<open>\<^verbatim>\<open>x <= 0\<close> on numbers: false for \<open>NaN\<close>.\<close>

fun le_zero :: "jsnum \<Rightarrow> bool" where
  "le_zero NaN = False"
| "le_zero NegInf = True"
| "le_zero (Fin r) = (r \<le> 0)"
| "le_zero PosInf = False"

text \<open>\<^verbatim>\<open>Boolean(x)\<close>.\<close>

definition toBoolean :: "jsval \<Rightarrow> jsval" where
  "toBoolean v = Bool (truthy v)"


subsection \<open>Integral numbers\<close>

text \<open>
  \<^verbatim>\<open>parseInt\<close> and the index arithmetic of the list handler produce doubles whose
  value is an integer, an infinity or \<open>NaN\<close>. An integer beyond \<open>2 ^ 53\<close> is rounded to
  the nearest double, an integer that rounds to \<open>2 ^ 1024\<close> or more is an infinity.
\<close>

datatype intnum = INaN | INegInf | IFin int | IPosInf

text \<open>The double nearest to a natural number; \<open>None\<close> when that is infinity.\<close>

definition round_nat :: "nat \<Rightarrow> nat option" where
  "round_nat a =
     (if a < 2 ^ 53 then Some a
      else
        let u = 2 ^ (bit_length a - 53);
            v = round_half_even a u * u
        in if 2 ^ 1024 \<le> v then None else Some v)"

definition round_int :: "int \<Rightarrow> intnum" where
  "round_int n =
     (case round_nat (nat \<bar>n\<bar>) of
        None \<Rightarrow> if n < 0 then INegInf else IPosInf
      | Some v \<Rightarrow> IFin (if n < 0 then - int v else int v))"

text \<open>\<^verbatim>\<open>a + b\<close>, \<^verbatim>\<open>a - b\<close> and \<^verbatim>\<open>a * b\<close> on such numbers: the exact result, rounded.\<close>

fun num_add :: "intnum \<Rightarrow> intnum \<Rightarrow> intnum" where
  "num_add INaN b = INaN"
| "num_add a INaN = INaN"
| "num_add IPosInf INegInf = INaN"
| "num_add INegInf IPosInf = INaN"
| "num_add IPosInf b = IPosInf"
| "num_add INegInf b = INegInf"
| "num_add a IPosInf = IPosInf"
| "num_add a INegInf = INegInf"
| "num_add (IFin x) (IFin y) = round_int (x + y)"

fun num_neg :: "intnum \<Rightarrow> intnum" where
  "num_neg INaN = INaN"
| "num_neg INegInf = IPosInf"
| "num_neg (IFin x) = IFin (- x)"
| "num_neg IPosInf = INegInf"

definition num_sub :: "intnum \<Rightarrow> intnum \<Rightarrow> intnum" where
  "num_sub a b = num_add a (num_neg b)"

text \<open>The sign of a number that is not \<open>NaN\<close>: -1, 0 or 1.\<close>

fun num_sign :: "intnum \<Rightarrow> int" where
  "num_sign INaN = 0"
| "num_sign INegInf = - 1"
| "num_sign (IFin x) = sgn x"
| "num_sign IPosInf = 1"

definition num_mul :: "intnum \<Rightarrow> intnum \<Rightarrow> intnum" where
  "num_mul a b =
     (case (a, b) of
        (IFin x, IFin y) \<Rightarrow> round_int (x * y)
      | _ \<Rightarrow>
          if a = INaN \<or> b = INaN \<or> num_sign a * num_sign b = 0 then INaN
          else if num_sign a * num_sign b < 0 then INegInf
          else IPosInf)"

text \<open>
  \<^verbatim>\<open>len / limit\<close> for an array length, which is below \<open>2 ^ 32\<close> and so a double
  itself: the double nearest to the quotient. Division by an infinity gives 0, and
  division by 0 an infinity, or \<open>NaN\<close> for the length 0.
\<close>

definition divide_length :: "nat \<Rightarrow> intnum \<Rightarrow> jsnum" where
  "divide_length len limit =
     (case limit of
        INaN \<Rightarrow> NaN
      | INegInf \<Rightarrow> Fin 0
      | IPosInf \<Rightarrow> Fin 0
      | IFin l \<Rightarrow>
          if l = 0 then (if len = 0 then NaN else PosInf)
          else if l < 0 then negate (to_double len (nat (- l)))
          else to_double len (nat l))"

text \<open>\<^verbatim>\<open>Math.ceil\<close>.\<close>

fun math_ceil :: "jsnum \<Rightarrow> intnum" where
  "math_ceil NaN = INaN"
| "math_ceil NegInf = INegInf"
| "math_ceil (Fin r) = IFin \<lceil>r\<rceil>"
| "math_ceil PosInf = IPosInf"

text \<open>\<^verbatim>\<open>Math.ceil(len / limit)\<close>.\<close>

definition ceil_div :: "nat \<Rightarrow> intnum \<Rightarrow> intnum" where
  "ceil_div len limit = math_ceil (divide_length len limit)"

text \<open>
  \<^verbatim>\<open>parseInt(s)\<close>: leading whitespace, a sign, an optional \<^verbatim>\<open>0x\<close>, then the longest run
  of digits; \<open>NaN\<close> when there is no digit.
\<close>

definition parseInt :: "string \<Rightarrow> intnum" where
  "parseInt s =
     (let (sg, r) = scan_sign (dropWhile is_space s);
          hex = (prefix ''0x'' r \<or> prefix ''0X'' r);
          radix = (if hex then 16 else 10);
          r' = (if hex then drop 2 r else r);
          ds = takeWhile (is_radix_digit radix) r'
      in if ds = [] then INaN else round_int (sg * int (digits_value radix ds)))"

text \<open>\<^verbatim>\<open>n || d\<close> on a number: \<open>NaN\<close> and 0 give the default.\<close>

definition or_default :: "intnum \<Rightarrow> int \<Rightarrow> intnum" where
  "or_default n d = (if n = INaN \<or> n = IFin 0 then IFin d else n)"

section \<open>Errors and the error responder\<close>

text \<open>
  Every failure the routes and middleware signal is a plain \<^verbatim>\<open>Error\<close> given a
  \<^verbatim>\<open>statusCode\<close> (and, from the validators, \<^verbatim>\<open>details\<close>); the classes
  \<^verbatim>\<open>NotFoundError\<close>, \<^verbatim>\<open>ValidationError\<close> and \<^verbatim>\<open>AuthenticationError\<close> are declared
  but never constructed. The engine itself throws a \<^verbatim>\<open>TypeError\<close> when a method is
  called on a value that lacks it, and a \<^verbatim>\<open>ReferenceError\<close> for an unbound name; the
  latter is kept with that name, its message in Node being the name followed by
  \<^verbatim>\<open>is not defined\<close>.
\<close>

datatype js_error =
    Error (message: string) (statusCode: "nat option") (details: "string list option")
  | TypeError
  | ReferenceError string

section \<open>Validator (middleware/validation.js)\<close>

text \<open>A middleware either calls \<^verbatim>\<open>next()\<close> (\<open>None\<close>) or \<^verbatim>\<open>next(error)\<close>.\<close>

type_synonym middleware_result = "js_error option"

text \<open>
  The conditions under which \<^verbatim>\<open>validateProduct\<close> pushes a message:
  \<^verbatim>\<open>!x || typeof x !== 'string' || x.trim().length === 0\<close> for name, description and
  category, and \<^verbatim>\<open>!price || isNaN(price) || parseFloat(price) <= 0\<close> for the price.
\<close>

definition string_field_bad :: "jsval \<Rightarrow> bool" where
  "string_field_bad v =
     (\<not> truthy v \<or> \<not> is_string v \<or> (case v of Str s \<Rightarrow> length (trim s) = 0 | _ \<Rightarrow> False))"

definition price_field_bad :: "jsval \<Rightarrow> bool" where
  "price_field_bad v = (\<not> truthy v \<or> isNaN v \<or> le_zero (parseFloat v))"

text \<open>The end of both validators: an error carrying the list if it is not empty.\<close>

definition validation_failure :: "string list \<Rightarrow> middleware_result" where
  "validation_failure errors =
     (if length errors > 0 then Some (Error ''Validation failed'' (Some 400) (Some errors))
      else None)"

definition validateProduct :: "obj \<Rightarrow> middleware_result" where
  "validateProduct body =
     (let name = field body ''name'';
          description = field body ''description'';
          price = field body ''price'';
          category = field body ''category'';
          errors = [];
          errors = (if string_field_bad name
                    then errors @ [''Name is required and must be a non-empty string'']
                    else errors);
          errors = (if string_field_bad description
                    then errors @ [''Description is required and must be a non-empty string'']
                    else errors);
          errors = (if price_field_bad price
                    then errors @ [''Price is required and must be a positive number'']
                    else errors);
          errors = (if string_field_bad category
                    then errors @ [''Category is required and must be a non-empty string'']
                    else errors)
      in validation_failure errors)"

text \<open>
  The conditions of \<^verbatim>\<open>validateProductUpdate\<close>:
  \<^verbatim>\<open>x && (typeof x !== 'string' || x.trim().length === 0)\<close> and
  \<^verbatim>\<open>price && (isNaN(price) || parseFloat(price) <= 0)\<close>.
\<close>

definition string_update_bad :: "jsval \<Rightarrow> bool" where
  "string_update_bad v =
     (truthy v \<and> (\<not> is_string v \<or> (case v of Str s \<Rightarrow> length (trim s) = 0 | _ \<Rightarrow> False)))"

definition price_update_bad :: "jsval \<Rightarrow> bool" where
  "price_update_bad v = (truthy v \<and> (isNaN v \<or> le_zero (parseFloat v)))"

definition validateProductUpdate :: "obj \<Rightarrow> middleware_result" where
  "validateProductUpdate body =
     (let name = field body ''name'';
          description = field body ''description'';
          price = field body ''price'';
          category = field body ''category'';
          inStock = field body ''inStock'';
          errors = [];
          errors = (if string_update_bad name
                    then errors @ [''Name must be a non-empty string''] else errors);
          errors = (if string_update_bad description
                    then errors @ [''Description must be a non-empty string''] else errors);
          errors = (if price_update_bad price
                    then errors @ [''Price must be a positive number''] else errors);
          errors = (if string_update_bad category
                    then errors @ [''Category must be a non-empty string''] else errors);
          errors = (if inStock \<noteq> Undefined \<and> \<not> is_boolean inStock
                    then errors @ [''inStock must be a boolean''] else errors)
      in validation_failure errors)"

section \<open>Authenticator (middleware/auth.js)\<close>

text \<open>
  \<open>env_API_KEY\<close> is \<^verbatim>\<open>process.env.API_KEY\<close>, \<open>apiKey\<close> the \<^verbatim>\<open>x-api-key\<close> header
  (\<open>None\<close> when the request has no such header).
\<close>

definition validApiKey :: "string option \<Rightarrow> string" where
  "validApiKey env_API_KEY =
     (case env_API_KEY of
        None \<Rightarrow> ''secret-key-123''
      | Some k \<Rightarrow> if k = [] then ''secret-key-123'' else k)"

definition authenticate :: "string option \<Rightarrow> string option \<Rightarrow> middleware_result" where
  "authenticate env_API_KEY apiKey =
     (case apiKey of
        None \<Rightarrow> Some (Error ''API key is required'' (Some 401) None)
      | Some k \<Rightarrow>
          if k = [] then Some (Error ''API key is required'' (Some 401) None)
          else if k \<noteq> validApiKey env_API_KEY
          then Some (Error ''Invalid API key'' (Some 401) None)
          else None)"

section \<open>Responses\<close>

datatype list_result =
  ListResult (lr_total: nat) (lr_page: intnum) (lr_limit: intnum) (lr_totalPages: intnum)
    (lr_data: "obj list")

text \<open>
  Of the statistics object only the three counters are modelled. Its \<^verbatim>\<open>categories\<close>
  and \<^verbatim>\<open>priceStats\<close> members (\<^verbatim>\<open>Math.max\<close>, \<^verbatim>\<open>Math.min\<close> and a mean, all double
  arithmetic with implicit conversions) are left out; computing them raises no exception.
\<close>

datatype stats_result =
  StatsResult (totalProducts: nat) (inStock: nat) (outOfStock: nat)

text \<open>The JSON bodies the service sends, one constructor per shape.\<close>

datatype reply =
    ListReply list_result
  | ProductReply obj
  | MessageReply string obj
  | SearchReply string nat "obj list"
  | StatsReply stats_result
  | ErrorMessageReply string string
  | ErrorReply string "string list option"
  | EngineErrorReply
  | RouteNotFoundReply

text \<open>
  \<open>MessageReply m p\<close> is \<^verbatim>\<open>{message: m, product: p}\<close>; \<open>SearchReply q n rs\<close> is
  \<^verbatim>\<open>{query: q, total: n, results: rs}\<close>; \<open>ErrorMessageReply e m\<close> is
  \<^verbatim>\<open>{error: e, message: m}\<close>; \<open>ErrorReply e d\<close> is \<^verbatim>\<open>{error: e}\<close> with \<^verbatim>\<open>details\<close>
  when \<open>d\<close> is given; \<open>EngineErrorReply\<close> is \<^verbatim>\<open>{error: t}\<close> with the engine's own text
  for a \<^verbatim>\<open>TypeError\<close>; \<open>RouteNotFoundReply\<close> is the application's answer to a path no
  route matches. In a list result \<^verbatim>\<open>JSON.stringify\<close> writes an infinity or \<open>NaN\<close> as
  \<^verbatim>\<open>null\<close>. The \<^verbatim>\<open>stack\<close> member added in development mode is not modelled.
\<close>

datatype response = Response (res_status: nat) (res_body: reply)

text \<open>A handler either sends a response or passes an error on (\<^verbatim>\<open>next(error)\<close>, or an
  exception that escapes it, which Express passes on the same way).\<close>

datatype outcome = Respond response | Throw js_error

text \<open>
  \<^verbatim>\<open>errorHandler\<close>. Its local \<^verbatim>\<open>error\<close> object starts as \<^verbatim>\<open>{message, statusCode}\<close> and
  gets \<^verbatim>\<open>details\<close> only in the branches for an error named \<^verbatim>\<open>ValidationError\<close> or an
  instance of the class \<^verbatim>\<open>ValidationError\<close>; the other branches test for
  \<^verbatim>\<open>err.code === 11000\<close>, the name \<^verbatim>\<open>CastError\<close> and the two other classes. None of
  them holds for the errors of \<open>js_error\<close>, so the body never carries \<^verbatim>\<open>details\<close>.
  An error thrown by the engine has no \<^verbatim>\<open>statusCode\<close> and is answered with 500.
\<close>

definition errorHandler :: "js_error \<Rightarrow> response" where
  "errorHandler err =
     (case err of
        Error m sc d \<Rightarrow>
          Response (case sc of None \<Rightarrow> 500 | Some n \<Rightarrow> if n = 0 then 500 else n)
                   (ErrorReply (if m = [] then ''Internal Server Error'' else m) None)
      | TypeError \<Rightarrow> Response 500 EngineErrorReply
      | ReferenceError name \<Rightarrow> Response 500 (ErrorReply (name @ '' is not defined'') None))"

definition finish :: "outcome \<Rightarrow> response" where
  "finish oc = (case oc of Respond r \<Rightarrow> r | Throw e \<Rightarrow> errorHandler e)"

section \<open>Product store and handlers (routes/products.js)\<close>

type_synonym store = "obj list"

definition laptop :: obj where
  "laptop = [''id'' \<mapsto> Str ''1'', ''name'' \<mapsto> Str ''Laptop'',
             ''description'' \<mapsto> Str ''High-performance gaming laptop'',
             ''price'' \<mapsto> Num (Fin 1299.99), ''category'' \<mapsto> Str ''Electronics'',
             ''inStock'' \<mapsto> Bool True]"

definition coffee_mug :: obj where
  "coffee_mug = [''id'' \<mapsto> Str ''2'', ''name'' \<mapsto> Str ''Coffee Mug'',
                 ''description'' \<mapsto> Str ''Ceramic coffee mug with handle'',
                 ''price'' \<mapsto> Num (Fin 12.99), ''category'' \<mapsto> Str ''Kitchen'',
                 ''inStock'' \<mapsto> Bool True]"

definition desk_lamp :: obj where
  "desk_lamp = [''id'' \<mapsto> Str ''3'', ''name'' \<mapsto> Str ''Desk Lamp'',
                ''description'' \<mapsto> Str ''LED desk lamp with adjustable brightness'',
                ''price'' \<mapsto> Num (Fin 34.99), ''category'' \<mapsto> Str ''Home'',
                ''inStock'' \<mapsto> Bool False]"

text \<open>The initial value of the module variable \<^verbatim>\<open>products\<close>.\<close>

definition seed_products :: store where
  "seed_products = [laptop, coffee_mug, desk_lamp]"


subsection \<open>Array helpers\<close>

fun findIndex :: "('a \<Rightarrow> bool) \<Rightarrow> 'a list \<Rightarrow> nat option" where
  "findIndex P [] = None"
| "findIndex P (x # xs) = (if P x then Some 0 else map_option Suc (findIndex P xs))"

text \<open>
  \<^verbatim>\<open>xs.slice(start, end)\<close>. Each index becomes a position between 0 and the length:
  \<open>NaN\<close> counts as 0, a negative index counts from the end, and the result is cut off
  at both ends of the array.
\<close>

definition rel_index :: "nat \<Rightarrow> intnum \<Rightarrow> nat" where
  "rel_index len i =
     (case i of
        INaN \<Rightarrow> 0
      | INegInf \<Rightarrow> 0
      | IPosInf \<Rightarrow> len
      | IFin n \<Rightarrow> nat (if n < 0 then max (int len + n) 0 else min n (int len)))"

definition js_slice :: "'a list \<Rightarrow> intnum \<Rightarrow> intnum \<Rightarrow> 'a list" where
  "js_slice xs start end' =
     (let k = rel_index (length xs) start;
          final = rel_index (length xs) end'
      in take (final - k) (drop k xs))"

text \<open>\<^verbatim>\<open>xs.splice(i, 1)\<close>: the array without its element at \<open>i\<close>.\<close>

definition splice1 :: "nat \<Rightarrow> 'a list \<Rightarrow> 'a list" where
  "splice1 i xs = take i xs @ drop (Suc i) xs"

text \<open>The text of a string value (only applied to values known to be strings).\<close>

fun str_of :: "jsval \<Rightarrow> string" where
  "str_of (Str s) = s"
| "str_of v = []"

subsection \<open>Query parameters\<close>

text \<open>
  A parameter of the query string is a string, or, when it is repeated or written with
  brackets, an array or an object; \<open>QOther s\<close> is such a value, \<open>s\<close> being what
  \<^verbatim>\<open>String\<close> makes of it. An absent parameter is \<^verbatim>\<open>undefined\<close>.
\<close>

datatype qval = QStr string | QOther string

fun q_text :: "qval \<Rightarrow> string" where
  "q_text (QStr s) = s"
| "q_text (QOther s) = s"

text \<open>A parameter that passes \<^verbatim>\<open>if (req.query.x)\<close>: present and not the empty string.\<close>

definition supplied :: "qval option \<Rightarrow> bool" where
  "supplied q = (case q of None \<Rightarrow> False | Some (QStr s) \<Rightarrow> s \<noteq> [] | Some (QOther s) \<Rightarrow> True)"

text \<open>The text \<^verbatim>\<open>parseInt\<close> reads from a parameter: \<^verbatim>\<open>undefined\<close> when it is absent.\<close>

definition param_text :: "qval option \<Rightarrow> string" where
  "param_text q = (case q of None \<Rightarrow> ''undefined'' | Some v \<Rightarrow> q_text v)"

subsection \<open>GET /\<close>

text \<open>
  The category filter evaluates
  \<^verbatim>\<open>product.category.toLowerCase() === req.query.category.toLowerCase()\<close> for each
  product in turn. It throws a \<^verbatim>\<open>TypeError\<close> when the category of some product is not
  a string, and on the first product when the parameter is not a string. The handler
  catches the error and calls \<^verbatim>\<open>next(error)\<close>, but its parameter list is
  \<^verbatim>\<open>(req, res)\<close>: \<^verbatim>\<open>next\<close> is unbound there, so what leaves the handler is a
  \<^verbatim>\<open>ReferenceError\<close>.
\<close>

definition category_throws :: "(string \<rightharpoonup> qval) \<Rightarrow> store \<Rightarrow> bool" where
  "category_throws query products =
     (case query ''category'' of
        None \<Rightarrow> False
      | Some (QStr s) \<Rightarrow>
          s \<noteq> [] \<and> \<not> list_all (\<lambda>product. is_string (field product ''category'')) products
      | Some (QOther s) \<Rightarrow> products \<noteq> [])"

definition list_handler :: "(string \<rightharpoonup> qval) \<Rightarrow> store \<Rightarrow> outcome" where
  "list_handler query products =
     (if category_throws query products then Throw (ReferenceError ''next'')
      else
        let filteredProducts = products;
            filteredProducts =
              (if supplied (query ''category'')
               then filter (\<lambda>product. toLowerCase (str_of (field product ''category'')) =
                                        toLowerCase (q_text (the (query ''category''))))
                      filteredProducts
               else filteredProducts);
            filteredProducts =
              (if supplied (query ''inStock'')
               then (let inStock = Bool (the (query ''inStock'') = QStr ''true'')
                     in filter (\<lambda>product. field product ''inStock'' = inStock) filteredProducts)
               else filteredProducts);
            page = or_default (parseInt (param_text (query ''page''))) 1;
            limit = or_default (parseInt (param_text (query ''limit''))) 10;
            startIndex = num_mul (num_sub page (IFin 1)) limit;
            endIndex = num_add startIndex limit
        in Respond (Response 200 (ListReply
             (ListResult (length filteredProducts) page limit
                (ceil_div (length filteredProducts) limit)
                (js_slice filteredProducts startIndex endIndex)))))"

subsection \<open>GET /:id\<close>

definition get_handler :: "string \<Rightarrow> store \<Rightarrow> outcome" where
  "get_handler pid products =
     (case find (\<lambda>p. field p ''id'' = Str pid) products of
        None \<Rightarrow> Throw (Error ''Product not found'' (Some 404) None)
      | Some product \<Rightarrow> Respond (Response 200 (ProductReply product)))"

subsection \<open>POST /\<close>

text \<open>\<open>uuid\<close> is the string the call \<^verbatim>\<open>uuidv4()\<close> of this request returns.\<close>

definition post_handler :: "string \<Rightarrow> obj \<Rightarrow> store \<Rightarrow> outcome \<times> store" where
  "post_handler uuid body products =
     (let newProduct =
            [''id'' \<mapsto> Str uuid,
             ''name'' \<mapsto> field body ''name'',
             ''description'' \<mapsto> field body ''description'',
             ''price'' \<mapsto> Num (parseFloat (field body ''price'')),
             ''category'' \<mapsto> field body ''category'',
             ''inStock'' \<mapsto> toBoolean (field body ''inStock'')]
      in (Respond (Response 201 (MessageReply ''Product created successfully'' newProduct)),
          products @ [newProduct]))"

subsection \<open>PUT /:id\<close>

text \<open>\<^verbatim>\<open>{...products[i], ...req.body, id: req.params.id}\<close>.\<close>

definition merged :: "obj \<Rightarrow> obj \<Rightarrow> string \<Rightarrow> obj" where
  "merged existing patch pid = (existing ++ patch)(''id'' \<mapsto> Str pid)"

definition put_handler :: "string \<Rightarrow> obj \<Rightarrow> store \<Rightarrow> outcome \<times> store" where
  "put_handler pid body products =
     (case findIndex (\<lambda>p. field p ''id'' = Str pid) products of
        None \<Rightarrow> (Throw (Error ''Product not found'' (Some 404) None), products)
      | Some productIndex \<Rightarrow>
          (let products' = products[productIndex := merged (products ! productIndex) body pid]
           in (Respond (Response 200
                 (MessageReply ''Product updated successfully'' (products' ! productIndex))),
               products')))"

subsection \<open>DELETE /:id\<close>

definition delete_handler :: "string \<Rightarrow> store \<Rightarrow> outcome \<times> store" where
  "delete_handler pid products =
     (case findIndex (\<lambda>p. field p ''id'' = Str pid) products of
        None \<Rightarrow> (Throw (Error ''Product not found'' (Some 404) None), products)
      | Some productIndex \<Rightarrow>
          (Respond (Response 200
             (MessageReply ''Product deleted successfully'' (products ! productIndex))),
           splice1 productIndex products))"


subsection \<open>GET /search\<close>

text \<open>
  \<^verbatim>\<open>req.query.q?.toLowerCase()\<close> is \<^verbatim>\<open>undefined\<close> for a missing parameter and throws a
  \<^verbatim>\<open>TypeError\<close> for one that is not a string. The filter calls \<^verbatim>\<open>toLowerCase\<close> on
  the name of every product, and on the description of those whose name does not
  match, so a value there that is not a string throws a \<^verbatim>\<open>TypeError\<close> too. This
  handler passes the error to \<^verbatim>\<open>next\<close>.
\<close>

definition search_match :: "string \<Rightarrow> obj \<Rightarrow> bool" where
  "search_match query product =
     (str_includes (toLowerCase (str_of (field product ''name''))) query \<or>
      str_includes (toLowerCase (str_of (field product ''description''))) query)"

definition search_throws :: "string \<Rightarrow> obj \<Rightarrow> bool" where
  "search_throws query product =
     (if is_string (field product ''name'')
      then \<not> str_includes (toLowerCase (str_of (field product ''name''))) query \<and>
           \<not> is_string (field product ''description'')
      else True)"

definition search_handler :: "(string \<rightharpoonup> qval) \<Rightarrow> store \<Rightarrow> outcome" where
  "search_handler query products =
     (case query ''q'' of
        Some (QOther t) \<Rightarrow> Throw TypeError
      | _ \<Rightarrow>
          (let q = map_option (\<lambda>v. toLowerCase (q_text v)) (query ''q'')
           in if q = None \<or> q = Some []
              then Respond (Response 400
                     (ErrorMessageReply ''Search query is required''
                        ''Please provide a search query using the \"q\" parameter''))
              else if list_ex (search_throws (the q)) products then Throw TypeError
              else
                let searchResults = filter (search_match (the q)) products
                in Respond (Response 200
                     (SearchReply (the q) (length searchResults) searchResults))))"

subsection \<open>GET /stats\<close>

definition stats_handler :: "store \<Rightarrow> outcome" where
  "stats_handler products =
     Respond (Response 200 (StatsReply
       (StatsResult (length products)
          (length (filter (\<lambda>p. truthy (field p ''inStock'')) products))
          (length (filter (\<lambda>p. \<not> truthy (field p ''inStock'')) products)))))"

section \<open>Router\<close>

text \<open>
  A request as the router sees it: the method, the path below the mount point as its
  list of segments (\<^verbatim>\<open>/\<close> is the empty list), the query parameters, the
  \<^verbatim>\<open>x-api-key\<close> header and the parsed JSON body. \<open>OTHER\<close> stands for a method no
  route is registered for, such as PATCH; \<^verbatim>\<open>OPTIONS\<close>, which Express answers by
  itself, is not modelled.
\<close>

datatype http_method = GET | HEAD | POST | PUT | DELETE | OTHER

datatype request =
  Request (req_method: http_method) (req_path: "string list")
    (req_query: "string \<rightharpoonup> qval") (req_apiKey: "string option") (req_body: obj)

datatype pattern = Root | Param string | Literal string

datatype handler_id =
  ListRoute | GetByIdRoute | CreateRoute | UpdateRoute | DeleteRoute | SearchRoute | StatsRoute

text \<open>The routes in the order in which \<^verbatim>\<open>routes/products.js\<close> registers them.\<close>

definition routes :: "(http_method \<times> pattern \<times> handler_id) list" where
  "routes =
     [(GET, Root, ListRoute),
      (GET, Param ''id'', GetByIdRoute),
      (POST, Root, CreateRoute),
      (PUT, Param ''id'', UpdateRoute),
      (DELETE, Param ''id'', DeleteRoute),
      (GET, Literal ''search'', SearchRoute),
      (GET, Literal ''stats'', StatsRoute)]"

text \<open>
  Express matches a path against a pattern: \<^verbatim>\<open>/\<close> matches the empty path, \<^verbatim>\<open>/:id\<close>
  any single segment, which it binds to \<^verbatim>\<open>req.params.id\<close>, and a literal segment matches
  itself, letter case ignored. The result is \<^verbatim>\<open>req.params\<close>.
\<close>

fun match_pattern :: "pattern \<Rightarrow> string list \<Rightarrow> (string \<rightharpoonup> string) option" where
  "match_pattern Root path = (if path = [] then Some Map.empty else None)"
| "match_pattern (Param name) path =
     (case path of [seg] \<Rightarrow> Some [name \<mapsto> seg] | _ \<Rightarrow> None)"
| "match_pattern (Literal l) path =
     (case path of
        [seg] \<Rightarrow> if toLowerCase seg = toLowerCase l then Some Map.empty else None
      | _ \<Rightarrow> None)"

text \<open>A route handles the method it is registered for; a GET route also handles
  \<^verbatim>\<open>HEAD\<close>, since no route here is registered for it.\<close>

definition handles_method :: "http_method \<Rightarrow> http_method \<Rightarrow> bool" where
  "handles_method registered m = (m = registered \<or> (m = HEAD \<and> registered = GET))"

text \<open>The first registered route whose method and pattern match handles the request.\<close>

fun first_match ::
  "http_method \<Rightarrow> string list \<Rightarrow> (http_method \<times> pattern \<times> handler_id) list \<Rightarrow>
   (handler_id \<times> (string \<rightharpoonup> string)) option" where
  "first_match m path [] = None"
| "first_match m path ((m', pat, h) # rs) =
     (if handles_method m' m then
        (case match_pattern pat path of
           Some params \<Rightarrow> Some (h, params)
         | None \<Rightarrow> first_match m path rs)
      else first_match m path rs)"

definition select_route :: "request \<Rightarrow> (handler_id \<times> (string \<rightharpoonup> string)) option" where
  "select_route req = first_match (req_method req) (req_path req) routes"

text \<open>
  A route runs its middleware in order, then its handler. No middleware or handler
  of this router calls \<^verbatim>\<open>next()\<close> without an error once it has taken a request, so a
  request never travels on to a later route; an error goes to \<^verbatim>\<open>errorHandler\<close>.
\<close>

definition guarded ::
  "middleware_result list \<Rightarrow> store \<Rightarrow> outcome \<times> store \<Rightarrow> response \<times> store" where
  "guarded checks products run =
     (case List.find (\<lambda>c. c \<noteq> None) checks of
        Some (Some e) \<Rightarrow> (errorHandler e, products)
      | _ \<Rightarrow> (finish (fst run), snd run))"

definition run_route ::
  "string option \<Rightarrow> string \<Rightarrow> handler_id \<Rightarrow> (string \<rightharpoonup> string) \<Rightarrow> request \<Rightarrow> store \<Rightarrow>
   response \<times> store" where
  "run_route env_API_KEY uuid h params req products =
     (case h of
        ListRoute \<Rightarrow> (finish (list_handler (req_query req) products), products)
      | GetByIdRoute \<Rightarrow> (finish (get_handler (the (params ''id'')) products), products)
      | CreateRoute \<Rightarrow>
          guarded [authenticate env_API_KEY (req_apiKey req), validateProduct (req_body req)]
            products (post_handler uuid (req_body req) products)
      | UpdateRoute \<Rightarrow>
          guarded [authenticate env_API_KEY (req_apiKey req),
                   validateProductUpdate (req_body req)]
            products (put_handler (the (params ''id'')) (req_body req) products)
      | DeleteRoute \<Rightarrow>
          guarded [authenticate env_API_KEY (req_apiKey req)]
            products (delete_handler (the (params ''id'')) products)
      | SearchRoute \<Rightarrow> (finish (search_handler (req_query req) products), products)
      | StatsRoute \<Rightarrow> (finish (stats_handler products), products))"

text \<open>
  Modelled from the spec: the request logger, \<^verbatim>\<open>middleware/logger.js\<close>, which the
  router applies to every request and whose source is not at hand. It "records
  method/path/timestamp for each inbound call (side-effect only, not part of core
  logic)": it writes its line and passes the request on.
\<close>

definition logger :: "request \<Rightarrow> middleware_result" where
  "logger req = None"

definition dispatch ::
  "string option \<Rightarrow> string \<Rightarrow> request \<Rightarrow> store \<Rightarrow> response \<times> store" where
  "dispatch env_API_KEY uuid req products =
     (case logger req of
        Some e \<Rightarrow> (errorHandler e, products)
      | None \<Rightarrow>
          (case select_route req of
             None \<Rightarrow> (Response 404 RouteNotFoundReply, products)
           | Some (h, params) \<Rightarrow> run_route env_API_KEY uuid h params req products))"

text \<open>
  \<^verbatim>\<open>uuidv4\<close> comes from the package \<^verbatim>\<open>uuid\<close>: it returns a random identifier of the
  shape \<^verbatim>\<open>xxxxxxxx-xxxx-4xxx-yxxx-xxxxxxxxxxxx\<close>, \<^verbatim>\<open>x\<close> a lower-case hexadecimal digit
  and \<^verbatim>\<open>y\<close> one of 8, 9, a, b.
\<close>

definition uuid_char_ok :: "char \<Rightarrow> char \<Rightarrow> bool" where
  "uuid_char_ok c t =
     (if t = CHR ''x'' then c \<in> set ''0123456789abcdef''
      else if t = CHR ''y'' then c \<in> set ''89ab''
      else c = t)"

definition uuid_v4 :: "string \<Rightarrow> bool" where
  "uuid_v4 u = list_all2 uuid_char_ok u ''xxxxxxxx-xxxx-4xxx-yxxx-xxxxxxxxxxxx''"

text \<open>The stores the service can be in: the seed data, and whatever a request makes
  of a store it can be in.\<close>

inductive reachable :: "string option \<Rightarrow> store \<Rightarrow> bool" for env_API_KEY :: "string option" where
  reachable_seed: "reachable env_API_KEY seed_products"
| reachable_step:
    "reachable env_API_KEY products \<Longrightarrow> uuid_v4 uuid \<Longrightarrow>
     reachable env_API_KEY (snd (dispatch env_API_KEY uuid req products))"

text \<open>
  The only call of \<^verbatim>\<open>uuidv4\<close> is in the create handler, which runs when a request is
  routed to \<^verbatim>\<open>POST /\<close> and passes authentication and validation.
\<close>

definition calls_uuidv4 :: "string option \<Rightarrow> request \<Rightarrow> bool" where
  "calls_uuidv4 env_API_KEY req =
     (case select_route req of
        Some (CreateRoute, params) \<Rightarrow>
          authenticate env_API_KEY (req_apiKey req) = None \<and>
          validateProduct (req_body req) = None
      | _ \<Rightarrow> False)"

text \<open>
  The generator keeps its promise of unique identifiers: what it returns has the shape
  above and differs from everything it has returned before. \<open>served env issued products\<close>
  says that the service, having obtained the identifiers \<open>issued\<close> from the generator
  so far, holds \<open>products\<close>. A request that does not call the generator is served
  whatever \<open>uuid\<close> is.
\<close>

inductive served :: "string option \<Rightarrow> string list \<Rightarrow> store \<Rightarrow> bool"
  for env_API_KEY :: "string option" where
  served_seed: "served env_API_KEY [] seed_products"
| served_step:
    "served env_API_KEY issued products \<Longrightarrow>
     (calls_uuidv4 env_API_KEY req \<longrightarrow> uuid_v4 uuid \<and> uuid \<notin> set issued) \<Longrightarrow>
     served env_API_KEY (if calls_uuidv4 env_API_KEY req then uuid # issued else issued)
       (snd (dispatch env_API_KEY uuid req products))"

section \<open>Notions of the specification\<close>

text \<open>A non-empty string after trimming, and a positive number, as the data model
  of the specification words the constraints on a product's fields.\<close>

definition nonempty_string :: "jsval \<Rightarrow> bool" where
  "nonempty_string v = (case v of Str s \<Rightarrow> trim s \<noteq> [] | _ \<Rightarrow> False)"

fun positive :: "jsnum \<Rightarrow> bool" where
  "positive (Fin r) = (0 < r)"
| "positive PosInf = True"
| "positive n = False"

text \<open>The identifiers of the stored products, in store order.\<close>

definition product_ids :: "store \<Rightarrow> jsval list" where
  "product_ids products = map (\<lambda>p. field p ''id'') products"

text \<open>
  A product satisfies the filters of a list request: its category equals the
  \<^verbatim>\<open>category\<close> parameter up to letter case, and its \<^verbatim>\<open>inStock\<close> flag is the boolean
  the \<^verbatim>\<open>inStock\<close> parameter stands for (true for the text \<^verbatim>\<open>true\<close>, false for any other),
  each only if that parameter is supplied.
\<close>

definition matches_filters :: "(string \<rightharpoonup> qval) \<Rightarrow> obj \<Rightarrow> bool" where
  "matches_filters query product =
     ((if supplied (query ''category'')
       then toLowerCase (str_of (field product ''category'')) =
            toLowerCase (q_text (the (query ''category'')))
       else True) \<and>
      (if supplied (query ''inStock'')
       then field product ''inStock'' = Bool (the (query ''inStock'') = QStr ''true'')
       else True))"

text \<open>
  An identifier the service can have issued: one of the three seed identifiers, or a
  string of the shape \<^verbatim>\<open>uuidv4\<close> returns.
\<close>

definition known_id :: "jsval \<Rightarrow> bool" where
  "known_id v = (case v of Str i \<Rightarrow> i \<in> {''1'', ''2'', ''3''} \<or> uuid_v4 i | _ \<Rightarrow> False)"

section \<open>The validators\<close>

lemma string_field_bad_iff: "string_field_bad v = (\<not> nonempty_string v)"
  by (cases v) (auto simp: string_field_bad_def nonempty_string_def trim_def)

lemma price_field_bad_num: "price_field_bad (Num n) = (\<not> positive n)"
  by (cases n) (auto simp: price_field_bad_def isNaN_def)

lemma price_field_bad_undefined: "price_field_bad Undefined"
  by (simp add: price_field_bad_def)

text \<open>
  \<^verbatim>\<open>validateProduct\<close> tests its four fields independently of one another. Its list
  of violations holds, in the order name, description, price, category, one message for
  each field that fails its test; the middleware passes exactly when the list is empty
  and otherwise hands on an error with message "Validation failed", status 400 and the
  whole list as its details. For name, description and category the test fails exactly
  when the value is not a string that is non-empty after trimming. An empty body
  yields all four messages, which differ from one another.
\<close>

lemma validateProduct_errors:
  "validateProduct body =
     (let errors =
            (if nonempty_string (field body ''name'') then []
             else [''Name is required and must be a non-empty string'']) @
            (if nonempty_string (field body ''description'') then []
             else [''Description is required and must be a non-empty string'']) @
            (if price_field_bad (field body ''price'')
             then [''Price is required and must be a positive number''] else []) @
            (if nonempty_string (field body ''category'') then []
             else [''Category is required and must be a non-empty string''])
      in if errors = [] then None
         else Some (Error ''Validation failed'' (Some 400) (Some errors)))"
  by (simp add: validateProduct_def validation_failure_def string_field_bad_iff Let_def)

lemma validateProduct_empty_body:
  "validateProduct Map.empty =
     Some (Error ''Validation failed'' (Some 400)
       (Some [''Name is required and must be a non-empty string'',
              ''Description is required and must be a non-empty string'',
              ''Price is required and must be a positive number'',
              ''Category is required and must be a non-empty string'']))"
  by (simp add: validateProduct_def validation_failure_def field_def string_field_bad_def
      price_field_bad_def)

text \<open>
  Claim C6. The price test of \<^verbatim>\<open>validateProduct\<close> is
  \<^verbatim>\<open>!price || isNaN(price) || parseFloat(price) <= 0\<close>. The price \<^verbatim>\<open>true\<close> is truthy,
  \<^verbatim>\<open>isNaN(true)\<close> is false because \<^verbatim>\<open>Number(true)\<close> is 1, and \<^verbatim>\<open>parseFloat(true)\<close> is
  \<open>NaN\<close>, which is not \<^verbatim>\<open><= 0\<close>; the price \<^verbatim>\<open>" "\<close> passes the same way, \<^verbatim>\<open>Number(" ")\<close>
  being 0. Neither is a positive number, yet a body with such a price and three valid
  strings gets no violation at all, and the POST route answers 201 and stores the price
  \<open>NaN\<close>.
\<close>

theorem validateProduct_accepts_non_number:
  "validateProduct [''name'' \<mapsto> Str ''Pen'', ''description'' \<mapsto> Str ''Blue ink'',
                    ''price'' \<mapsto> Bool True, ''category'' \<mapsto> Str ''Office''] = None
   \<and> validateProduct [''name'' \<mapsto> Str ''Pen'', ''description'' \<mapsto> Str ''Blue ink'',
                      ''price'' \<mapsto> Str '' '', ''category'' \<mapsto> Str ''Office''] = None
   \<and> res_status (fst (dispatch None ''11111111-1111-4111-8111-111111111111''
        (Request POST [] Map.empty (Some ''secret-key-123'')
           [''name'' \<mapsto> Str ''Pen'', ''description'' \<mapsto> Str ''Blue ink'',
            ''price'' \<mapsto> Bool True, ''category'' \<mapsto> Str ''Office''])
        seed_products)) = 201
   \<and> map (\<lambda>p. field p ''price'')
        (snd (dispatch None ''11111111-1111-4111-8111-111111111111''
           (Request POST [] Map.empty (Some ''secret-key-123'')
              [''name'' \<mapsto> Str ''Pen'', ''description'' \<mapsto> Str ''Blue ink'',
               ''price'' \<mapsto> Bool True, ''category'' \<mapsto> Str ''Office''])
           seed_products)) =
       [Num (Fin 1299.99), Num (Fin 12.99), Num (Fin 34.99), Num NaN]"
proof -
  have ok: "validateProduct [''name'' \<mapsto> Str ''Pen'', ''description'' \<mapsto> Str ''Blue ink'',
                    ''price'' \<mapsto> Bool True, ''category'' \<mapsto> Str ''Office''] = None"
    by (simp add: validateProduct_def validation_failure_def field_def string_field_bad_def
        price_field_bad_def isNaN_def trim_def is_space_def)
  have blank: "validateProduct [''name'' \<mapsto> Str ''Pen'', ''description'' \<mapsto> Str ''Blue ink'',
                      ''price'' \<mapsto> Str '' '', ''category'' \<mapsto> Str ''Office''] = None"
    by (simp add: validateProduct_def validation_failure_def field_def string_field_bad_def
        price_field_bad_def isNaN_def trim_def is_space_def number_of_string_def
        parseFloat_str_def scan_literal_def scan_sign_def scan_unsigned_def)
  have run: "dispatch None ''11111111-1111-4111-8111-111111111111''
        (Request POST [] Map.empty (Some ''secret-key-123'')
           [''name'' \<mapsto> Str ''Pen'', ''description'' \<mapsto> Str ''Blue ink'',
            ''price'' \<mapsto> Bool True, ''category'' \<mapsto> Str ''Office''])
        seed_products =
      (finish (fst (post_handler ''11111111-1111-4111-8111-111111111111''
           [''name'' \<mapsto> Str ''Pen'', ''description'' \<mapsto> Str ''Blue ink'',
            ''price'' \<mapsto> Bool True, ''category'' \<mapsto> Str ''Office''] seed_products)),
       snd (post_handler ''11111111-1111-4111-8111-111111111111''
           [''name'' \<mapsto> Str ''Pen'', ''description'' \<mapsto> Str ''Blue ink'',
            ''price'' \<mapsto> Bool True, ''category'' \<mapsto> Str ''Office''] seed_products))"
    by (simp add: dispatch_def logger_def select_route_def routes_def handles_method_def
        run_route_def guarded_def authenticate_def validApiKey_def ok)
  have status: "res_status (fst (dispatch None ''11111111-1111-4111-8111-111111111111''
        (Request POST [] Map.empty (Some ''secret-key-123'')
           [''name'' \<mapsto> Str ''Pen'', ''description'' \<mapsto> Str ''Blue ink'',
            ''price'' \<mapsto> Bool True, ''category'' \<mapsto> Str ''Office''])
        seed_products)) = 201"
    unfolding run by (simp add: post_handler_def finish_def Let_def)
  have stored: "map (\<lambda>p. field p ''price'')
        (snd (dispatch None ''11111111-1111-4111-8111-111111111111''
           (Request POST [] Map.empty (Some ''secret-key-123'')
              [''name'' \<mapsto> Str ''Pen'', ''description'' \<mapsto> Str ''Blue ink'',
               ''price'' \<mapsto> Bool True, ''category'' \<mapsto> Str ''Office''])
           seed_products)) =
       [Num (Fin 1299.99), Num (Fin 12.99), Num (Fin 34.99), Num NaN]"
    unfolding run
    by (simp add: post_handler_def seed_products_def laptop_def coffee_mug_def desk_lamp_def
        field_def Let_def)
  from ok blank status stored show ?thesis
    by (intro conjI)
qed

text \<open>
  Claim C3. \<^verbatim>\<open>validateProductUpdate\<close> guards each test with the truthiness of the
  value (\<^verbatim>\<open>price && ...\<close>), not with its presence. A price of exactly 0 and an empty
  name are present and falsy, so they are not tested at all: the update validator
  reports no violation for them, while \<^verbatim>\<open>validateProduct\<close> rejects the same price, and
  the PUT route then stores the price 0.
\<close>

theorem validateProductUpdate_accepts_falsy:
  "validateProductUpdate [''price'' \<mapsto> Num (Fin 0)] = None
   \<and> validateProductUpdate [''name'' \<mapsto> Str ''''] = None
   \<and> validateProduct [''name'' \<mapsto> Str ''Pen'', ''description'' \<mapsto> Str ''Blue ink'',
                      ''price'' \<mapsto> Num (Fin 0), ''category'' \<mapsto> Str ''Office''] =
       Some (Error ''Validation failed'' (Some 400)
         (Some [''Price is required and must be a positive number'']))
   \<and> map (\<lambda>p. field p ''price'')
        (snd (dispatch None ''11111111-1111-4111-8111-111111111111''
           (Request PUT [''1''] Map.empty (Some ''secret-key-123'')
              [''price'' \<mapsto> Num (Fin 0)])
           seed_products)) =
       [Num (Fin 0), Num (Fin 12.99), Num (Fin 34.99)]"
  by (simp add: validateProductUpdate_def validateProduct_def validation_failure_def field_def
      string_update_bad_def price_update_bad_def string_field_bad_def price_field_bad_def
      isNaN_def trim_def is_space_def
      dispatch_def logger_def select_route_def routes_def handles_method_def run_route_def
      guarded_def authenticate_def
      validApiKey_def put_handler_def seed_products_def laptop_def coffee_mug_def desk_lamp_def
      merged_def finish_def)

section \<open>The authenticator\<close>

lemma validApiKey_nonempty: "validApiKey env \<noteq> []"
  by (simp add: validApiKey_def split: option.split)

text \<open>
  Claim C9, as amended. \<^verbatim>\<open>authenticate\<close> hands on the error "API key is required"
  with status 401 when the header is missing or empty; the error "Invalid API key"
  with status 401 when the header is not empty and differs from the configured secret
  (\<^verbatim>\<open>process.env.API_KEY\<close>, or \<^verbatim>\<open>secret-key-123\<close> when that is unset or empty); and
  calls \<^verbatim>\<open>next()\<close>, touching nothing, when the header equals the secret. The error
  responder turns either error into a 401 response carrying its message.
\<close>

theorem authenticate_cases:
  "authenticate env None = Some (Error ''API key is required'' (Some 401) None)
   \<and> authenticate env (Some []) = Some (Error ''API key is required'' (Some 401) None)
   \<and> (k \<noteq> [] \<and> k \<noteq> validApiKey env \<longrightarrow>
        authenticate env (Some k) = Some (Error ''Invalid API key'' (Some 401) None))
   \<and> authenticate env (Some (validApiKey env)) = None
   \<and> errorHandler (Error ''API key is required'' (Some 401) None) =
        Response 401 (ErrorReply ''API key is required'' None)
   \<and> errorHandler (Error ''Invalid API key'' (Some 401) None) =
        Response 401 (ErrorReply ''Invalid API key'' None)"
  by (simp add: authenticate_def validApiKey_nonempty errorHandler_def)

text \<open>A wrong key and the right key, against the default secret and a configured one.\<close>

theorem authenticate_cases_witness:
  "authenticate None (Some ''wrong-key'') = Some (Error ''Invalid API key'' (Some 401) None)
   \<and> authenticate None (Some ''secret-key-123'') = None
   \<and> authenticate (Some ''k1'') (Some ''k1'') = None"
  using authenticate_cases [of None "''wrong-key''"] authenticate_cases [of "Some ''k1''" "''k1''"]
  by (simp add: validApiKey_def)

text \<open>
  Claim C9 as stated fails for an empty header: the empty string differs from the
  configured secret, yet the error is not "Invalid API key".
\<close>

theorem authenticate_empty_key:
  "'''' \<noteq> validApiKey None
   \<and> authenticate None (Some '''') \<noteq> Some (Error ''Invalid API key'' (Some 401) None)
   \<and> authenticate None (Some '''') = Some (Error ''API key is required'' (Some 401) None)"
  by (simp add: authenticate_def validApiKey_def)

section \<open>Statistics\<close>

text \<open>
  Claim C10. For every store the statistics handler answers 200 with
  \<^verbatim>\<open>totalProducts\<close> the size of the whole collection, \<^verbatim>\<open>inStock\<close> the number of
  products whose \<^verbatim>\<open>inStock\<close> is truthy, \<^verbatim>\<open>outOfStock\<close> the number of the others,
  and the two counters add up to the total.
\<close>

theorem stats_counts:
  "stats_handler products =
     Respond (Response 200 (StatsReply
       (StatsResult (length products)
          (length (filter (\<lambda>p. truthy (field p ''inStock'')) products))
          (length (filter (\<lambda>p. \<not> truthy (field p ''inStock'')) products)))))
   \<and> (\<exists>st. stats_handler products = Respond (Response 200 (StatsReply st))
         \<and> totalProducts st = length products
         \<and> inStock st + outOfStock st = totalProducts st)"
  by (simp add: stats_handler_def sum_length_filter_compl)

section \<open>Update and create\<close>

lemma findIndex_None: "findIndex P xs = None \<longleftrightarrow> (\<forall>x \<in> set xs. \<not> P x)"
  by (induction xs) auto

lemma findIndex_Some:
  "findIndex P xs = Some i \<Longrightarrow> i < length xs \<and> P (xs ! i) \<and> (\<forall>j < i. \<not> P (xs ! j))"
proof (induction xs arbitrary: i)
  case Nil
  then show ?case by simp
next
  case (Cons x xs)
  show ?case
  proof (cases "P x")
    case True
    with Cons.prems show ?thesis by simp
  next
    case False
    with Cons.prems obtain j where j: "findIndex P xs = Some j" "i = Suc j"
      by auto
    from Cons.IH [OF j(1)] False j(2) show ?thesis
      by (auto simp: less_Suc_eq_0_disj)
  qed
qed

lemma merged_id: "field (merged existing patch pid) ''id'' = Str pid"
  by (simp add: merged_def field_def)

lemma merged_other:
  "k \<noteq> ''id'' \<Longrightarrow>
   merged existing patch pid k = (case patch k of Some v \<Rightarrow> Some v | None \<Rightarrow> existing k)"
  by (simp add: merged_def map_add_def)

text \<open>
  Claim C4. When no stored product has the identifier, the update handler passes on
  the error "Product not found" with status 404 and leaves the store as it is.
  Otherwise, with \<open>i\<close> the index of the first product that has it, the store is
  changed at \<open>i\<close> only: the record there becomes the old one overlaid with the patch
  (a property of the patch wins, a property absent from the patch is kept), except
  that \<^verbatim>\<open>id\<close> is set to the identifier of the request, which is the one the old
  record had, whatever \<^verbatim>\<open>id\<close> the patch carries. The response is 200 with that record.
\<close>

theorem put_handler_merge:
  "case findIndex (\<lambda>p. field p ''id'' = Str pid) products of
     None \<Rightarrow>
       put_handler pid patch products =
         (Throw (Error ''Product not found'' (Some 404) None), products)
       \<and> errorHandler (Error ''Product not found'' (Some 404) None) =
           Response 404 (ErrorReply ''Product not found'' None)
       \<and> (\<forall>p \<in> set products. field p ''id'' \<noteq> Str pid)
   | Some i \<Rightarrow>
       put_handler pid patch products =
         (Respond (Response 200
            (MessageReply ''Product updated successfully'' (merged (products ! i) patch pid))),
          products[i := merged (products ! i) patch pid])
       \<and> i < length products
       \<and> field (products ! i) ''id'' = Str pid
       \<and> field (merged (products ! i) patch pid) ''id'' = Str pid
       \<and> (\<forall>k. k \<noteq> ''id'' \<longrightarrow>
             merged (products ! i) patch pid k =
               (case patch k of Some v \<Rightarrow> Some v | None \<Rightarrow> (products ! i) k))
       \<and> length (snd (put_handler pid patch products)) = length products
       \<and> (\<forall>j. j \<noteq> i \<longrightarrow> snd (put_handler pid patch products) ! j = products ! j)"
proof (cases "findIndex (\<lambda>p. field p ''id'' = Str pid) products")
  case None
  then show ?thesis
    by (simp add: put_handler_def errorHandler_def findIndex_None [symmetric])
next
  case (Some i)
  from findIndex_Some [OF Some]
  have i: "i < length products" "field (products ! i) ''id'' = Str pid"
    by auto
  with Some show ?thesis
    by (simp add: put_handler_def merged_id merged_other)
qed

text \<open>Updating the price of product 2 of the seed data with a patch that also
  carries another \<^verbatim>\<open>id\<close>, and updating an identifier nobody has.\<close>

theorem put_handler_merge_witness:
  "map (\<lambda>p. (field p ''id'', field p ''name'', field p ''price''))
     (snd (put_handler ''2'' [''price'' \<mapsto> Num (Fin 9.5), ''id'' \<mapsto> Str ''77''] seed_products)) =
     [(Str ''1'', Str ''Laptop'', Num (Fin 1299.99)),
      (Str ''2'', Str ''Coffee Mug'', Num (Fin 9.5)),
      (Str ''3'', Str ''Desk Lamp'', Num (Fin 34.99))]
   \<and> put_handler ''999'' [''price'' \<mapsto> Num (Fin 9.5)] seed_products =
       (Throw (Error ''Product not found'' (Some 404) None), seed_products)"
  using put_handler_merge [where pid = "''2''" and products = seed_products
                             and patch = "[''price'' \<mapsto> Num (Fin 9.5), ''id'' \<mapsto> Str ''77'']"]
        put_handler_merge [where pid = "''999''" and products = seed_products
                             and patch = "[''price'' \<mapsto> Num (Fin 9.5)]"]
  by (simp add: seed_products_def laptop_def coffee_mug_def desk_lamp_def field_def merged_def)

lemma product_ids_put:
  "product_ids (snd (put_handler pid patch products)) = product_ids products"
proof (cases "findIndex (\<lambda>p. field p ''id'' = Str pid) products")
  case None
  then show ?thesis by (simp add: put_handler_def)
next
  case (Some i)
  from findIndex_Some [OF Some]
  have "i < length products" "field (products ! i) ''id'' = Str pid"
    by auto
  then have "(map (\<lambda>p. field p ''id'') products)[i := Str pid] =
             map (\<lambda>p. field p ''id'') products"
    by (simp add: list_update_same_conv)
  with Some show ?thesis
    by (simp add: put_handler_def product_ids_def map_update merged_id Let_def)
qed

lemma distinct_splice1: "distinct xs \<Longrightarrow> distinct (splice1 i xs)"
proof -
  assume d: "distinct xs"
  have "xs = take i xs @ drop i xs" by simp
  moreover have "set (drop (Suc i) xs) \<subseteq> set (drop i xs)"
    by (metis Suc_n_not_le_n nat_le_linear set_drop_subset_set_drop)
  ultimately show ?thesis
    using d unfolding splice1_def
    by (metis distinct_append distinct_drop disjoint_iff subsetD)
qed

lemma product_ids_splice1: "product_ids (splice1 i xs) = splice1 i (product_ids xs)"
  by (simp add: product_ids_def splice1_def take_map drop_map)

lemma product_ids_delete:
  "distinct (product_ids products) \<Longrightarrow>
   distinct (product_ids (snd (delete_handler pid products)))"
  by (cases "findIndex (\<lambda>p. field p ''id'' = Str pid) products")
     (simp_all add: delete_handler_def product_ids_splice1 distinct_splice1)


section \<open>Search\<close>

lemma str_includes_sublist: "str_includes hay needle \<longleftrightarrow> sublist needle hay"
  by (induction hay) (simp_all add: sublist_Cons_right)

lemma toLowerCase_empty: "toLowerCase s = [] \<longleftrightarrow> s = []"
  by (simp add: toLowerCase_def)

lemma search_throws_typed:
  "is_string (field p ''name'') \<Longrightarrow> is_string (field p ''description'') \<Longrightarrow>
   \<not> search_throws q p"
  by (simp add: search_throws_def)

lemma no_search_throws:
  "list_all (\<lambda>p. is_string (field p ''name'') \<and> is_string (field p ''description'')) products \<Longrightarrow>
   \<not> list_ex (search_throws q) products"
  by (auto simp: list_all_iff list_ex_iff search_throws_typed)

text \<open>
  The search handler by itself. When the parameter \<^verbatim>\<open>q\<close> is missing or empty, it
  answers 400 with the error "Search query is required". Otherwise, in a store whose
  products have strings as name and description (the data model of the
  specification), it answers 200 with the query in lower case, the products whose
  lower-cased name or lower-cased description contains the lower-cased query as a
  contiguous substring, in store order, and their number as the total.
\<close>

theorem search_handler_spec:
  "(query ''q'' = None \<or> query ''q'' = Some (QStr []) \<longrightarrow>
      search_handler query products =
        Respond (Response 400
          (ErrorMessageReply ''Search query is required''
             ''Please provide a search query using the \"q\" parameter'')))
   \<and> (query ''q'' = Some (QStr s) \<and> s \<noteq> [] \<and>
       list_all (\<lambda>p. is_string (field p ''name'') \<and> is_string (field p ''description''))
         products \<longrightarrow>
       (let results =
              filter (\<lambda>p. sublist (toLowerCase s) (toLowerCase (str_of (field p ''name''))) \<or>
                           sublist (toLowerCase s)
                             (toLowerCase (str_of (field p ''description'')))) products
        in search_handler query products =
             Respond (Response 200 (SearchReply (toLowerCase s) (length results) results))
           \<and> subseq results products))"
proof -
  have missing: "query ''q'' = None \<or> query ''q'' = Some (QStr []) \<longrightarrow>
      search_handler query products =
        Respond (Response 400
          (ErrorMessageReply ''Search query is required''
             ''Please provide a search query using the \"q\" parameter''))"
    by (auto simp: search_handler_def supplied_def toLowerCase_def)
  have given: "query ''q'' = Some (QStr s) \<and> s \<noteq> [] \<and>
       list_all (\<lambda>p. is_string (field p ''name'') \<and> is_string (field p ''description''))
         products \<longrightarrow>
       (let results =
              filter (\<lambda>p. sublist (toLowerCase s) (toLowerCase (str_of (field p ''name''))) \<or>
                           sublist (toLowerCase s)
                             (toLowerCase (str_of (field p ''description'')))) products
        in search_handler query products =
             Respond (Response 200 (SearchReply (toLowerCase s) (length results) results))
           \<and> subseq results products)"
  proof (intro impI, elim conjE)
    assume q: "query ''q'' = Some (QStr s)" "s \<noteq> []"
      and typed: "list_all (\<lambda>p. is_string (field p ''name'') \<and>
                                 is_string (field p ''description'')) products"
    have match: "search_match (toLowerCase s) =
        (\<lambda>p. sublist (toLowerCase s) (toLowerCase (str_of (field p ''name''))) \<or>
              sublist (toLowerCase s) (toLowerCase (str_of (field p ''description''))))"
      by (simp add: search_match_def str_includes_sublist fun_eq_iff)
    from q no_search_throws [OF typed, of "toLowerCase s"] show
      "let results =
              filter (\<lambda>p. sublist (toLowerCase s) (toLowerCase (str_of (field p ''name''))) \<or>
                           sublist (toLowerCase s)
                             (toLowerCase (str_of (field p ''description'')))) products
        in search_handler query products =
             Respond (Response 200 (SearchReply (toLowerCase s) (length results) results))
           \<and> subseq results products"
      by (simp add: search_handler_def supplied_def toLowerCase_empty match Let_def)
  qed
  from missing given show ?thesis by blast
qed

text \<open>Searching the seed data for \<^verbatim>\<open>MUG\<close>, for the empty text, and with no
  parameter.\<close>

theorem search_handler_seed:
  "search_handler [''q'' \<mapsto> QStr ''MUG''] seed_products =
     Respond (Response 200 (SearchReply ''mug'' 1 [coffee_mug]))
   \<and> search_handler [''q'' \<mapsto> QStr ''''] seed_products =
       Respond (Response 400
         (ErrorMessageReply ''Search query is required''
            ''Please provide a search query using the \"q\" parameter''))
   \<and> search_handler Map.empty seed_products =
       Respond (Response 400
         (ErrorMessageReply ''Search query is required''
            ''Please provide a search query using the \"q\" parameter''))"
proof -
  have typed: "list_all (\<lambda>p. is_string (field p ''name'') \<and> is_string (field p ''description''))
                 seed_products"
    by (simp add: seed_products_def laptop_def coffee_mug_def desk_lamp_def field_def)
  have lower: "toLowerCase ''MUG'' = ''mug''"
    by (simp add: toLowerCase_def lower_char_def upper_chars_def lower_chars_def)
  have results: "filter (\<lambda>p. sublist ''mug'' (toLowerCase (str_of (field p ''name''))) \<or>
                           sublist ''mug'' (toLowerCase (str_of (field p ''description''))))
                   seed_products = [coffee_mug]"
    by (simp add: seed_products_def laptop_def coffee_mug_def desk_lamp_def field_def
        toLowerCase_def lower_char_def upper_chars_def lower_chars_def sublist_Cons_right)
  from typed search_handler_spec [where query = "[''q'' \<mapsto> QStr ''MUG'']" and s = "''MUG''"
                                   and products = seed_products]
       search_handler_spec [where query = "[''q'' \<mapsto> QStr '''']" and s = "''''"
                              and products = seed_products]
       search_handler_spec [where query = "Map.empty" and s = "''''"
                              and products = seed_products]
  show ?thesis
    by (simp add: lower results Let_def)
qed

text \<open>
  Claim C1. No request reaches the search handler: \<^verbatim>\<open>GET /search\<close> is taken by the
  route \<^verbatim>\<open>GET /:id\<close>, registered before it. Against the seed data a search for
  \<^verbatim>\<open>lamp\<close> is answered 404 "Product not found", where the search handler would have
  answered 200 with the desk lamp, and a search without \<^verbatim>\<open>q\<close> is answered 404 as
  well, where the search handler would have answered 400.
\<close>

theorem search_request_not_found:
  "dispatch None ''11111111-1111-4111-8111-111111111111''
     (Request GET [''search''] [''q'' \<mapsto> QStr ''lamp''] None Map.empty) seed_products =
     (Response 404 (ErrorReply ''Product not found'' None), seed_products)
   \<and> search_handler [''q'' \<mapsto> QStr ''lamp''] seed_products =
       Respond (Response 200 (SearchReply ''lamp'' 1 [desk_lamp]))
   \<and> dispatch None ''11111111-1111-4111-8111-111111111111''
       (Request GET [''search''] Map.empty None Map.empty) seed_products =
       (Response 404 (ErrorReply ''Product not found'' None), seed_products)
   \<and> search_handler Map.empty seed_products =
       Respond (Response 400
         (ErrorMessageReply ''Search query is required''
            ''Please provide a search query using the \"q\" parameter''))"
proof -
  have routed: "\<And>query.
    dispatch None ''11111111-1111-4111-8111-111111111111''
      (Request GET [''search''] query None Map.empty) seed_products =
      (Response 404 (ErrorReply ''Product not found'' None), seed_products)"
    by (simp add: dispatch_def logger_def select_route_def routes_def handles_method_def
        run_route_def get_handler_def finish_def errorHandler_def seed_products_def
        laptop_def coffee_mug_def desk_lamp_def field_def)
  have found: "search_handler [''q'' \<mapsto> QStr ''lamp''] seed_products =
       Respond (Response 200 (SearchReply ''lamp'' 1 [desk_lamp]))"
    by (simp add: search_handler_def supplied_def search_throws_def search_match_def
        str_includes_sublist sublist_Cons_right seed_products_def laptop_def coffee_mug_def
        desk_lamp_def field_def toLowerCase_def lower_char_def upper_chars_def lower_chars_def)
  have required: "search_handler Map.empty seed_products =
       Respond (Response 400
         (ErrorMessageReply ''Search query is required''
            ''Please provide a search query using the \"q\" parameter''))"
    by (simp add: search_handler_def supplied_def)
  from routed found required show ?thesis
    by simp
qed

section \<open>Listing\<close>

subsection \<open>Rounding\<close>

lemma bit_length_bounds: "0 < n \<Longrightarrow> 2 ^ (bit_length n - 1) \<le> n \<and> n < 2 ^ bit_length n"
proof (induction n rule: bit_length.induct)
  case (1 n)
  from "1.prems" have n: "n \<noteq> 0"
    by simp
  then have bl: "bit_length n = Suc (bit_length (n div 2))"
    by (simp add: bit_length.simps [of n])
  show ?case
  proof (cases "n div 2 = 0")
    case True
    with n have "n = 1"
      by (simp add: div_eq_0_iff)
    moreover have "bit_length 0 = 0"
      by (simp add: bit_length.simps [of 0])
    ultimately show ?thesis
      using bl by simp
  next
    case False
    then have pos: "0 < n div 2"
      by simp
    from "1.IH" [OF n pos]
    have IH: "2 ^ (bit_length (n div 2) - 1) \<le> n div 2" "n div 2 < 2 ^ bit_length (n div 2)"
      by auto
    from False have "bit_length (n div 2) \<noteq> 0"
      by (simp add: bit_length.simps [of "n div 2"])
    then obtain k where k: "bit_length (n div 2) = Suc k"
      by (cases "bit_length (n div 2)") auto
    from IH(1) k have "2 * 2 ^ k \<le> 2 * (n div 2)"
      by simp
    then have lower: "(2::nat) ^ Suc k \<le> n"
      by simp
    from IH(2) k have "n div 2 + 1 \<le> 2 ^ Suc k"
      by simp
    then have "2 * (n div 2) + 2 \<le> 2 * 2 ^ Suc k"
      by simp
    then have upper: "n < 2 ^ Suc (Suc k)"
      by simp
    from bl k lower upper show ?thesis
      by simp
  qed
qed


lemma round_nat_small: "a < 2 ^ 53 \<Longrightarrow> round_nat a = Some a"
  by (simp add: round_nat_def)


lemma round_int_small: "\<bar>n\<bar> < 2 ^ 53 \<Longrightarrow> round_int n = IFin n"
proof -
  assume "\<bar>n\<bar> < 2 ^ 53"
  then have "nat \<bar>n\<bar> < 2 ^ 53"
    by (simp add: nat_less_iff)
  then have "round_nat (nat \<bar>n\<bar>) = Some (nat \<bar>n\<bar>)"
    by (rule round_nat_small)
  then show ?thesis
    by (simp add: round_int_def)
qed






subsection \<open>Division\<close>

lemma round_half_even_bounds:
  assumes "0 < q"
  shows "2 * (round_half_even n q * q) \<le> 2 * n + q"
    and "2 * n \<le> 2 * (round_half_even n q * q) + q"
proof -
  define m where "m = n div q"
  define r where "r = n mod q"
  have n: "n = m * q + r"
    by (simp add: m_def r_def)
  from assms have r: "r < q"
    by (simp add: r_def)
  have rhe: "round_half_even n q = (if q < 2 * r \<or> (2 * r = q \<and> odd m) then m + 1 else m)"
    by (simp add: round_half_even_def Let_def m_def r_def)
  from r show "2 * (round_half_even n q * q) \<le> 2 * n + q"
    unfolding rhe by (auto simp: n algebra_simps)
  from r show "2 * n \<le> 2 * (round_half_even n q * q) + q"
    unfolding rhe by (auto simp: n algebra_simps)
qed

text \<open>Rounding a quotient to a multiple of \<open>1 / K\<close>, for \<open>K\<close> more than half the divisor,
  does not move it across an integer.\<close>

lemma rounding_order:
  assumes "0 < q" and "q < 2 * K"
  shows "p \<le> z * q \<Longrightarrow> round_half_even (p * K) q \<le> z * K"
    and "z * q \<le> p \<Longrightarrow> z * K \<le> round_half_even (p * K) q"
    and "z * q < p \<Longrightarrow> z * K < round_half_even (p * K) q"
    and "p < z * q \<Longrightarrow> round_half_even (p * K) q < z * K"
proof -
  let ?m = "round_half_even (p * K) q"
  note b = round_half_even_bounds [OF assms(1), of "p * K"]
  have swap: "z * q * K = z * K * q" "(z + 1) * q * K = (z + 1) * K * q"
    by (simp_all only: mult.assoc mult.commute [of q K])
  show "?m \<le> z * K" if "p \<le> z * q"
  proof (rule ccontr)
    assume "\<not> ?m \<le> z * K"
    then have "z * K + 1 \<le> ?m"
      by simp
    then have "(z * K + 1) * q \<le> ?m * q"
      by (rule mult_le_mono1)
    then have "z * K * q + q \<le> ?m * q"
      by (simp only: add_mult_distrib mult_1)
    moreover from that have "p * K \<le> z * q * K"
      by (rule mult_le_mono1)
    then have "p * K \<le> z * K * q"
      by (simp only: swap)
    ultimately show False
      using b(1) assms(1) by linarith
  qed
  show "z * K \<le> ?m" if "z * q \<le> p"
  proof (rule ccontr)
    assume "\<not> z * K \<le> ?m"
    then have "?m + 1 \<le> z * K"
      by simp
    then have "(?m + 1) * q \<le> z * K * q"
      by (rule mult_le_mono1)
    then have "?m * q + q \<le> z * K * q"
      by (simp only: add_mult_distrib mult_1)
    moreover from that have "z * q * K \<le> p * K"
      by (rule mult_le_mono1)
    then have "z * K * q \<le> p * K"
      by (simp only: swap)
    ultimately show False
      using b(2) assms(1) by linarith
  qed
  show "z * K < ?m" if "z * q < p"
  proof (rule ccontr)
    assume "\<not> z * K < ?m"
    then have "?m \<le> z * K"
      by simp
    then have "?m * q \<le> z * K * q"
      by (rule mult_le_mono1)
    moreover from that have "z * q + 1 \<le> p"
      by simp
    then have "(z * q + 1) * K \<le> p * K"
      by (rule mult_le_mono1)
    then have "z * K * q + K \<le> p * K"
      by (simp only: add_mult_distrib mult_1 swap)
    ultimately show False
      using b(2) assms(2) by linarith
  qed
  show "?m < z * K" if "p < z * q"
  proof (rule ccontr)
    assume "\<not> ?m < z * K"
    then have "z * K \<le> ?m"
      by simp
    then have "z * K * q \<le> ?m * q"
      by (rule mult_le_mono1)
    moreover from that have "p + 1 \<le> z * q"
      by simp
    then have "(p + 1) * K \<le> z * q * K"
      by (rule mult_le_mono1)
    then have "p * K + K \<le> z * K * q"
      by (simp only: add_mult_distrib mult_1 swap)
    ultimately show False
      using b(1) assms(2) by linarith
  qed
qed

lemma bit_length_le:
  assumes "0 < n" and "n < 2 ^ k"
  shows "bit_length n \<le> k"
proof -
  from bit_length_bounds [OF assms(1)] have "2 ^ (bit_length n - 1) \<le> n"
    by simp
  from this assms(2) have "(2::nat) ^ (bit_length n - 1) < 2 ^ k"
    by (rule le_less_trans)
  then have "bit_length n - 1 < k"
    by (rule power_less_imp_less_exp [rotated]) simp
  then show ?thesis
    by simp
qed

text \<open>The quotient of an array length by a positive integer below \<open>2 ^ 1024\<close> is
  rounded to a multiple of a power of two that is more than half the divisor.\<close>

lemma to_double_scaled:
  assumes "0 < p" and "p < 2 ^ 32" and "0 < q" and "q < 2 ^ 1024"
  shows "\<exists>k. to_double p q = Fin (real (round_half_even (p * 2 ^ k) q) / 2 ^ k) \<and> q < 2 * 2 ^ k"
proof -
  have blp: "bit_length p \<le> 32"
    using assms(1,2) by (rule bit_length_le)
  have blq: "bit_length q \<le> 1024"
    using assms(3,4) by (rule bit_length_le)
  from assms(3) have blq_pos: "0 < bit_length q"
    by (simp add: bit_length.simps [of q])
  from bit_length_bounds [OF assms(3)] have q: "q < 2 ^ bit_length q"
    by simp
  define d where "d = int (bit_length p) - int (bit_length q)"
  define e where "e = (if (if 0 \<le> d then q * 2 ^ nat d \<le> p else q \<le> p * 2 ^ nat (- d))
                       then d else d - 1)"
  define s where "s = 52 - max e (- 1022)"
  have "e \<le> d"
    by (simp add: e_def)
  with blp blq_pos have s0: "0 \<le> s"
    by (auto simp: s_def d_def max_def)
  from \<open>e \<le> d\<close> blp blq have "int (bit_length q) \<le> s + 1"
    by (auto simp: s_def d_def max_def)
  with s0 have "bit_length q \<le> nat s + 1"
    by simp
  then have "(2::nat) ^ bit_length q \<le> 2 ^ (nat s + 1)"
    by (rule power_increasing) simp
  with q have bound: "q < 2 * 2 ^ nat s"
    by simp
  have "to_double p q = Fin (real (round_half_even (p * 2 ^ nat s) q) / 2 ^ nat s)"
    unfolding to_double_def Let_def
    by (fold d_def, fold e_def, fold s_def) (use assms(1) s0 in simp)
  with bound show ?thesis
    by blast
qed

lemma to_double_ceiling_floor:
  assumes "0 < p" and "p < 2 ^ 32" and "0 < q" and "q < 2 ^ 1024"
  shows "\<exists>r. to_double p q = Fin r \<and> \<lceil>r\<rceil> = \<lceil>real p / real q\<rceil> \<and> \<lfloor>r\<rfloor> = \<lfloor>real p / real q\<rfloor>"
proof -
  from to_double_scaled [OF assms] obtain k where
    k: "to_double p q = Fin (real (round_half_even (p * 2 ^ k) q) / 2 ^ k)" "q < 2 * 2 ^ k"
    by blast
  define K :: nat where "K = 2 ^ k"
  define m where "m = round_half_even (p * K) q"
  define x where "x = real p / real q"
  have K: "0 < K"
    by (simp add: K_def)
  from k(2) have qK: "q < 2 * K"
    by (simp add: K_def)
  note order = rounding_order [OF assms(3) qK, where p = p, folded m_def]
  from assms(1,3) have "0 < x"
    by (simp add: x_def)
  have up: "\<lceil>real m / real K\<rceil> = \<lceil>x\<rceil>"
  proof (rule ceiling_unique)
    define z where "z = nat \<lceil>x\<rceil>"
    from \<open>0 < x\<close> have "0 < \<lceil>x\<rceil>"
      by simp
    then have z: "real_of_int \<lceil>x\<rceil> = real z" "0 < z"
      by (simp_all add: z_def)
    have "x \<le> real z"
      unfolding z(1) [symmetric] by (rule le_of_int_ceiling)
    with assms(3) have "real p \<le> real (z * q)"
      by (simp add: x_def pos_divide_le_eq)
    then have "p \<le> z * q"
      by (simp only: of_nat_le_iff)
    from order(1) [OF this] have "real m \<le> real (z * K)"
      by (simp only: of_nat_le_iff)
    with K show "real m / real K \<le> real_of_int \<lceil>x\<rceil>"
      unfolding z(1) by (simp add: pos_divide_le_eq)
    have "real_of_int \<lceil>x\<rceil> - 1 < x"
      by linarith
    with z have "real (z - 1) < x"
      by (simp add: of_nat_diff)
    with assms(3) have "real ((z - 1) * q) < real p"
      by (simp add: x_def pos_less_divide_eq)
    then have "(z - 1) * q < p"
      by (simp only: of_nat_less_iff)
    from order(3) [OF this] have "real ((z - 1) * K) < real m"
      by (simp only: of_nat_less_iff)
    with K have "real (z - 1) < real m / real K"
      by (simp add: pos_less_divide_eq)
    with z show "real_of_int \<lceil>x\<rceil> - 1 < real m / real K"
      by (simp add: of_nat_diff)
  qed
  have down: "\<lfloor>real m / real K\<rfloor> = \<lfloor>x\<rfloor>"
  proof (rule floor_unique)
    define z where "z = nat \<lfloor>x\<rfloor>"
    from \<open>0 < x\<close> have "0 \<le> \<lfloor>x\<rfloor>"
      by simp
    then have z: "real_of_int \<lfloor>x\<rfloor> = real z"
      by (simp add: z_def)
    have "real z \<le> x"
      unfolding z [symmetric] by (rule of_int_floor_le)
    with assms(3) have "real (z * q) \<le> real p"
      by (simp add: x_def pos_le_divide_eq)
    then have "z * q \<le> p"
      by (simp only: of_nat_le_iff)
    from order(2) [OF this] have "real (z * K) \<le> real m"
      by (simp only: of_nat_le_iff)
    with K show "real_of_int \<lfloor>x\<rfloor> \<le> real m / real K"
      unfolding z by (simp add: pos_le_divide_eq)
    have "x < real_of_int \<lfloor>x\<rfloor> + 1"
      by linarith
    then have "x < real (z + 1)"
      unfolding z by simp
    with assms(3) have "real p < real ((z + 1) * q)"
      by (simp add: x_def pos_divide_less_eq algebra_simps)
    then have "p < (z + 1) * q"
      by (simp only: of_nat_less_iff)
    from order(4) [OF this] have "real m < real ((z + 1) * K)"
      by (simp only: of_nat_less_iff)
    with K show "real m / real K < real_of_int \<lfloor>x\<rfloor> + 1"
      unfolding z by (simp add: pos_divide_less_eq algebra_simps)
  qed
  from k(1) have "to_double p q = Fin (real m / real K)"
    by (simp add: m_def K_def)
  with up down show ?thesis
    unfolding x_def by blast
qed

text \<open>For an array length and a divisor that \<^verbatim>\<open>parseInt\<close> can return,
  \<^verbatim>\<open>Math.ceil(len / limit)\<close> is the ceiling of the exact quotient.\<close>

lemma ceil_div_exact:
  assumes "len < 2 ^ 32" and "l \<noteq> 0" and "\<bar>l\<bar> < 2 ^ 1024"
  shows "ceil_div len (IFin l) = IFin \<lceil>real len / real_of_int l\<rceil>"
proof (cases "len = 0")
  case True
  with assms(2) show ?thesis
    by (simp add: ceil_div_def divide_length_def to_double_def)
next
  case False
  then have len: "0 < len"
    by simp
  define q where "q = nat \<bar>l\<bar>"
  from assms(2) have q: "0 < q"
    by (simp add: q_def)
  from assms(3) have "q < 2 ^ 1024"
    by (simp add: q_def nat_less_iff)
  from to_double_ceiling_floor [OF len assms(1) q this] obtain r where
    r: "to_double len q = Fin r" "\<lceil>r\<rceil> = \<lceil>real len / real q\<rceil>" "\<lfloor>r\<rfloor> = \<lfloor>real len / real q\<rfloor>"
    by blast
  show ?thesis
  proof (cases "0 < l")
    case True
    then have "nat l = q" "real_of_int l = real q"
      by (simp_all add: q_def)
    with True r(1,2) show ?thesis
      by (simp add: ceil_div_def divide_length_def)
  next
    case False
    with assms(2) have neg: "l < 0"
      by simp
    then have l: "nat (- l) = q" "real_of_int l = - real q"
      by (simp_all add: q_def)
    have "\<lceil>- r\<rceil> = - \<lfloor>r\<rfloor>"
      by (simp add: ceiling_def)
    also have "\<dots> = \<lceil>- (real len / real q)\<rceil>"
      by (simp add: r(3) ceiling_def)
    finally have "\<lceil>- r\<rceil> = \<lceil>real len / real_of_int l\<rceil>"
      by (simp add: l(2))
    with neg r(1) l(1) show ?thesis
      by (simp add: ceil_div_def divide_length_def)
  qed
qed





subsection \<open>Slices\<close>

lemma js_slice_sublist: "sublist (js_slice xs a b) xs"
  unfolding js_slice_def Let_def
  by (rule sublist_order.order_trans [OF sublist_take sublist_drop])

lemma js_slice_subset: "set (js_slice xs a b) \<subseteq> set xs"
  using js_slice_sublist [of xs a b] by (rule set_mono_sublist)


lemma js_slice_all:
  "rel_index (length xs) s = 0 \<Longrightarrow> rel_index (length xs) e = length xs \<Longrightarrow> js_slice xs s e = xs"
  by (simp add: js_slice_def Let_def)









subsection \<open>The list handler\<close>

lemma parseInt_undefined: "parseInt ''undefined'' = INaN"
  by (simp add: parseInt_def scan_sign_def is_space_def is_radix_digit_def digit_value_def)

lemma list_handler_result:
  assumes "\<not> category_throws query products"
  shows "list_handler query products =
     (let F = filter (matches_filters query) products;
          page = or_default (parseInt (param_text (query ''page''))) 1;
          limit = or_default (parseInt (param_text (query ''limit''))) 10;
          start = num_mul (num_sub page (IFin 1)) limit
      in Respond (Response 200 (ListReply
           (ListResult (length F) page limit (ceil_div (length F) limit)
              (js_slice F start (num_add start limit))))))"
proof -
  have two_filters: "(if supplied (query ''inStock'')
       then (let inStock = Bool (the (query ''inStock'') = QStr ''true'')
             in filter (\<lambda>product. field product ''inStock'' = inStock)
                  (if supplied (query ''category'')
                   then filter (\<lambda>product. toLowerCase (str_of (field product ''category'')) =
                                            toLowerCase (q_text (the (query ''category''))))
                          products
                   else products))
       else (if supplied (query ''category'')
             then filter (\<lambda>product. toLowerCase (str_of (field product ''category'')) =
                                      toLowerCase (q_text (the (query ''category'')))) products
             else products)) = filter (matches_filters query) products"
    by (auto simp: matches_filters_def Let_def intro: filter_cong)
  from assms show ?thesis
    unfolding list_handler_def
    by (simp only: if_False Let_def two_filters [unfolded Let_def])
qed

text \<open>
  As long as the category filter does not throw, the list handler answers 200; the
  total is the number of products that satisfy every supplied filter (a parameter
  counts as supplied when it is present and not the empty string); those products, in
  store order, are what the page is cut from, so the data are a contiguous part of
  them and a subsequence of the collection, and each element satisfies the filters.
\<close>

lemma list_handler_filters:
  assumes "\<not> category_throws query products"
  shows "\<exists>r. list_handler query products = Respond (Response 200 (ListReply r))
     \<and> lr_total r = length (filter (matches_filters query) products)
     \<and> subseq (filter (matches_filters query) products) products
     \<and> sublist (lr_data r) (filter (matches_filters query) products)
     \<and> subseq (lr_data r) products
     \<and> (\<forall>p \<in> set (lr_data r). matches_filters query p)"
proof -
  let ?F = "filter (matches_filters query) products"
  let ?page = "or_default (parseInt (param_text (query ''page''))) 1"
  let ?limit = "or_default (parseInt (param_text (query ''limit''))) 10"
  let ?start = "num_mul (num_sub ?page (IFin 1)) ?limit"
  let ?data = "js_slice ?F ?start (num_add ?start ?limit)"
  let ?r = "ListResult (length ?F) ?page ?limit (ceil_div (length ?F) ?limit) ?data"
  have resp: "list_handler query products = Respond (Response 200 (ListReply ?r))"
    using list_handler_result [where query = query and products = products, OF assms]
    by (simp only: Let_def)
  have part: "sublist ?data ?F"
    by (rule js_slice_sublist)
  have kept: "subseq ?F products"
    by (rule subseq_filter_left)
  from part have "subseq ?data ?F"
    by (rule sublist_imp_subseq)
  from this kept have sub: "subseq ?data products"
    by (rule subseq_order.trans)
  have "set ?data \<subseteq> set ?F"
    by (rule js_slice_subset)
  then have sat: "\<forall>p \<in> set ?data. matches_filters query p"
    by auto
  from resp part kept sub sat show ?thesis
    by (intro exI [of _ ?r], unfold list_result.sel) (intro conjI; (assumption | rule refl))
qed

text \<open>The seed data filtered by the category \<^verbatim>\<open>kitchen\<close>.\<close>

lemma list_handler_kitchen:
  "list_handler [''category'' \<mapsto> QStr ''kitchen''] seed_products =
     Respond (Response 200 (ListReply
       (ListResult 1 (IFin 1) (IFin 10) (IFin 1) [coffee_mug])))"
proof -
  have typed: "\<not> category_throws [''category'' \<mapsto> QStr ''kitchen''] seed_products"
    by (simp add: category_throws_def seed_products_def laptop_def coffee_mug_def desk_lamp_def
        field_def)
  have F: "filter (matches_filters [''category'' \<mapsto> QStr ''kitchen'']) seed_products =
           [coffee_mug]"
    by (simp add: matches_filters_def supplied_def seed_products_def laptop_def coffee_mug_def
        desk_lamp_def field_def toLowerCase_def lower_char_def upper_chars_def lower_chars_def)
  have pages: "ceil_div (Suc 0) (IFin 10) = IFin 1"
  proof -
    have "\<lceil>(1::real) / 10\<rceil> = 1"
      by (rule ceiling_unique) simp_all
    with ceil_div_exact [of "Suc 0" 10] show ?thesis
      by simp
  qed
  have data: "js_slice [coffee_mug] (IFin 0) (IFin 10) = [coffee_mug]"
    by (simp add: js_slice_def rel_index_def)
  from list_handler_result [where query = "[''category'' \<mapsto> QStr ''kitchen'']"
                              and products = seed_products, OF typed]
  show ?thesis
    unfolding F
    by (simp add: Let_def param_text_def parseInt_undefined or_default_def num_sub_def
        num_mul_def round_int_small pages data)
qed

text \<open>
  Claim C7. A stored category need not be a string: \<^verbatim>\<open>validateProductUpdate\<close> lets
  the body \<^verbatim>\<open>{"category": null}\<close> pass, since it tests a field only when its value is
  truthy, and the PUT route stores it. From then on every list request with a category
  filter throws in the filter, and the handler's \<^verbatim>\<open>catch\<close> block throws again, so
  \<^verbatim>\<open>GET /?category=kitchen\<close> is answered 500 "next is not defined" although the
  coffee mug is still stored with the category \<^verbatim>\<open>Kitchen\<close>. With the seed data
  untouched, a request that repeats the parameter gets the same answer.
\<close>

theorem list_request_category_throws:
  "validateProductUpdate [''category'' \<mapsto> Null] = None
   \<and> map (\<lambda>p. field p ''category'')
        (snd (dispatch None ''11111111-1111-4111-8111-111111111111''
           (Request PUT [''1''] Map.empty (Some ''secret-key-123'') [''category'' \<mapsto> Null])
           seed_products)) =
       [Null, Str ''Kitchen'', Str ''Home'']
   \<and> fst (dispatch None ''22222222-2222-4222-8222-222222222222''
        (Request GET [] [''category'' \<mapsto> QStr ''kitchen''] None Map.empty)
        (snd (dispatch None ''11111111-1111-4111-8111-111111111111''
           (Request PUT [''1''] Map.empty (Some ''secret-key-123'') [''category'' \<mapsto> Null])
           seed_products))) =
       Response 500 (ErrorReply ''next is not defined'' None)
   \<and> fst (dispatch None ''11111111-1111-4111-8111-111111111111''
        (Request GET [] [''category'' \<mapsto> QOther ''kitchen,home''] None Map.empty)
        seed_products) =
       Response 500 (ErrorReply ''next is not defined'' None)"
proof -
  have valid: "validateProductUpdate [''category'' \<mapsto> Null] = None"
    by (simp add: validateProductUpdate_def validation_failure_def field_def
        string_update_bad_def price_update_bad_def)
  have put: "snd (dispatch None ''11111111-1111-4111-8111-111111111111''
           (Request PUT [''1''] Map.empty (Some ''secret-key-123'') [''category'' \<mapsto> Null])
           seed_products) =
       [merged laptop [''category'' \<mapsto> Null] ''1'', coffee_mug, desk_lamp]"
    by (simp add: dispatch_def logger_def select_route_def routes_def handles_method_def
        run_route_def guarded_def authenticate_def validApiKey_def valid put_handler_def
        seed_products_def laptop_def field_def)
  have stored: "map (\<lambda>p. field p ''category'')
       [merged laptop [''category'' \<mapsto> Null] ''1'', coffee_mug, desk_lamp] =
       [Null, Str ''Kitchen'', Str ''Home'']"
    by (simp add: merged_def field_def coffee_mug_def desk_lamp_def)
  have listed: "\<And>uuid query products.
      fst (dispatch None uuid (Request GET [] query None Map.empty) products) =
      finish (list_handler query products)"
    by (simp add: dispatch_def logger_def select_route_def routes_def handles_method_def
        run_route_def)
  have thrown: "\<And>query products. category_throws query products \<Longrightarrow>
      finish (list_handler query products) =
      Response 500 (ErrorReply ''next is not defined'' None)"
    by (simp add: list_handler_def finish_def errorHandler_def)
  have null: "category_throws [''category'' \<mapsto> QStr ''kitchen'']
                [merged laptop [''category'' \<mapsto> Null] ''1'', coffee_mug, desk_lamp]"
    by (simp add: category_throws_def merged_def field_def)
  have repeated: "category_throws [''category'' \<mapsto> QOther ''kitchen,home''] seed_products"
    by (simp add: category_throws_def seed_products_def)
  from valid stored thrown [OF null] thrown [OF repeated] show ?thesis
    unfolding put listed by (intro conjI)
qed





section \<open>Routing\<close>

lemma select_route_get_segment:
  "req_method req = GET \<Longrightarrow> req_path req = [seg] \<Longrightarrow>
   select_route req = Some (GetByIdRoute, [''id'' \<mapsto> seg])"
  by (simp add: select_route_def routes_def handles_method_def)

lemma first_match_never_shadowed:
  "map_option fst (first_match m path routes) \<noteq> Some SearchRoute \<and>
   map_option fst (first_match m path routes) \<noteq> Some StatsRoute"
proof (cases path)
  case Nil
  then show ?thesis
    by (cases m) (simp_all add: routes_def handles_method_def)
next
  case (Cons seg rest)
  then show ?thesis
    by (cases m; cases rest) (simp_all add: routes_def handles_method_def)
qed

lemma set_splice1: "set (splice1 i xs) \<subseteq> set xs"
  unfolding splice1_def by (auto dest: in_set_takeD in_set_dropD)

lemma product_ids_post:
  "product_ids (snd (post_handler uuid body products)) = product_ids products @ [Str uuid]"
  by (simp add: post_handler_def product_ids_def field_def Let_def)

lemma set_product_ids_delete:
  "set (product_ids (snd (delete_handler pid products))) \<subseteq> set (product_ids products)"
  by (cases "findIndex (\<lambda>p. field p ''id'' = Str pid) products")
     (simp_all add: delete_handler_def product_ids_splice1 set_splice1)

lemma guarded_cases:
  "snd (guarded checks products run) = products \<or> snd (guarded checks products run) = snd run"
  by (simp add: guarded_def split: option.split)

lemma dispatch_ids:
  "set (product_ids (snd (dispatch env uuid req products))) \<subseteq>
   insert (Str uuid) (set (product_ids products))"
proof (cases "select_route req")
  case None
  then show ?thesis by (auto simp: dispatch_def logger_def)
next
  case (Some hp)
  obtain h params where hp: "hp = (h, params)" by (cases hp)
  show ?thesis
  proof (cases h)
    case CreateRoute
    with Some hp
      guarded_cases [of "[authenticate env (req_apiKey req), validateProduct (req_body req)]"
        products "post_handler uuid (req_body req) products"]
    show ?thesis
      by (auto simp: dispatch_def logger_def run_route_def product_ids_post)
  next
    case UpdateRoute
    with Some hp
      guarded_cases [of "[authenticate env (req_apiKey req),
                          validateProductUpdate (req_body req)]"
        products "put_handler (the (params ''id'')) (req_body req) products"]
    show ?thesis
      by (auto simp: dispatch_def logger_def run_route_def product_ids_put)
  next
    case DeleteRoute
    with Some hp
      guarded_cases [of "[authenticate env (req_apiKey req)]"
        products "delete_handler (the (params ''id'')) products"]
      set_product_ids_delete [of "the (params ''id'')" products]
    show ?thesis
      by (auto simp: dispatch_def logger_def run_route_def)
  qed (use Some hp in \<open>auto simp: dispatch_def logger_def run_route_def\<close>)
qed

lemma seed_ids: "product_ids seed_products = [Str ''1'', Str ''2'', Str ''3'']"
  by (simp add: product_ids_def seed_products_def laptop_def coffee_mug_def desk_lamp_def
      field_def)

lemma reachable_known_ids:
  "reachable env products \<Longrightarrow> \<forall>v \<in> set (product_ids products). known_id v"
proof (induction rule: reachable.induct)
  case reachable_seed
  show ?case by (simp add: seed_ids known_id_def)
next
  case (reachable_step products uuid req)
  from \<open>uuid_v4 uuid\<close> have "known_id (Str uuid)"
    by (simp add: known_id_def)
  with reachable_step.IH dispatch_ids [of env uuid req products] show ?case
    by auto
qed

lemma not_known_search: "\<not> known_id (Str ''search'')" "\<not> known_id (Str ''stats'')"
  by (simp_all add: known_id_def uuid_v4_def)

lemma get_handler_absent:
  "Str pid \<notin> set (product_ids products) \<Longrightarrow>
   finish (get_handler pid products) = Response 404 (ErrorReply ''Product not found'' None)"
proof -
  assume "Str pid \<notin> set (product_ids products)"
  then have "find (\<lambda>p. field p ''id'' = Str pid) products = None"
    by (force simp: find_None_iff product_ids_def)
  then show ?thesis
    by (simp add: get_handler_def finish_def errorHandler_def)
qed

text \<open>
  Claim C2. \<^verbatim>\<open>GET /:id\<close> is registered before \<^verbatim>\<open>GET /search\<close> and \<^verbatim>\<open>GET /stats\<close>,
  so a GET request for the path \<^verbatim>\<open>/search\<close> or \<^verbatim>\<open>/stats\<close> is given to the get-by-id
  handler with that segment as \<^verbatim>\<open>req.params.id\<close>. In every store the service can
  reach from the seed data the identifiers are seed identifiers or UUIDs, never
  \<^verbatim>\<open>search\<close> or \<^verbatim>\<open>stats\<close>, so the answer is 404 with the error "Product not found"
  and the store is unchanged, whatever the query, headers and body. No request at all
  is routed to the search handler or to the statistics handler.
\<close>

theorem search_and_stats_shadowed:
  assumes "reachable env products"
    and "req_method req = GET"
    and "req_path req = [seg]"
    and "seg = ''search'' \<or> seg = ''stats''"
  shows "select_route req = Some (GetByIdRoute, [''id'' \<mapsto> seg])
     \<and> dispatch env uuid req products =
         (Response 404 (ErrorReply ''Product not found'' None), products)
     \<and> (\<forall>r. map_option fst (select_route r) \<noteq> Some SearchRoute
            \<and> map_option fst (select_route r) \<noteq> Some StatsRoute)"
proof -
  from assms(2,3) have route: "select_route req = Some (GetByIdRoute, [''id'' \<mapsto> seg])"
    by (rule select_route_get_segment)
  from reachable_known_ids [OF assms(1)] assms(4) not_known_search
  have "Str seg \<notin> set (product_ids products)"
    by auto
  then have "finish (get_handler seg products) =
             Response 404 (ErrorReply ''Product not found'' None)"
    by (rule get_handler_absent)
  with route have answer: "dispatch env uuid req products =
         (Response 404 (ErrorReply ''Product not found'' None), products)"
    by (simp add: dispatch_def logger_def run_route_def)
  have never: "\<forall>r. map_option fst (select_route r) \<noteq> Some SearchRoute
            \<and> map_option fst (select_route r) \<noteq> Some StatsRoute"
    unfolding select_route_def using first_match_never_shadowed by blast
  from route answer never show ?thesis
    by blast
qed

text \<open>The two requests against the seed data.\<close>

theorem search_and_stats_shadowed_witness:
  "dispatch None ''11111111-1111-4111-8111-111111111111''
     (Request GET [''search''] [''q'' \<mapsto> QStr ''mug''] None Map.empty) seed_products =
     (Response 404 (ErrorReply ''Product not found'' None), seed_products)
   \<and> dispatch None ''11111111-1111-4111-8111-111111111111''
     (Request GET [''stats''] Map.empty None Map.empty) seed_products =
     (Response 404 (ErrorReply ''Product not found'' None), seed_products)"
  using search_and_stats_shadowed
          [where env = None and products = seed_products and seg = "''search''"
             and req = "Request GET [''search''] [''q'' \<mapsto> QStr ''mug''] None Map.empty"
             and uuid = "''11111111-1111-4111-8111-111111111111''", OF reachable_seed]
        search_and_stats_shadowed
          [where env = None and products = seed_products and seg = "''stats''"
             and req = "Request GET [''stats''] Map.empty None Map.empty"
             and uuid = "''11111111-1111-4111-8111-111111111111''", OF reachable_seed]
  by simp

section \<open>Identifier uniqueness\<close>

lemma dispatch_create:
  assumes "calls_uuidv4 env req"
  shows "dispatch env uuid req products =
     (finish (fst (post_handler uuid (req_body req) products)),
      snd (post_handler uuid (req_body req) products))"
proof -
  from assms obtain params where
    "select_route req = Some (CreateRoute, params)"
    "authenticate env (req_apiKey req) = None"
    "validateProduct (req_body req) = None"
    by (auto simp: calls_uuidv4_def split: option.splits handler_id.splits)
  then show ?thesis
    by (simp add: dispatch_def logger_def run_route_def guarded_def)
qed

lemma dispatch_no_create:
  assumes "\<not> calls_uuidv4 env req"
  shows "set (product_ids (snd (dispatch env uuid req products))) \<subseteq> set (product_ids products)
     \<and> (distinct (product_ids products) \<longrightarrow>
          distinct (product_ids (snd (dispatch env uuid req products))))"
proof (cases "select_route req")
  case None
  then show ?thesis by (simp add: dispatch_def logger_def)
next
  case (Some hp)
  obtain h params where hp: "hp = (h, params)" by (cases hp)
  show ?thesis
  proof (cases h)
    case CreateRoute
    with Some hp assms
    have "authenticate env (req_apiKey req) \<noteq> None \<or> validateProduct (req_body req) \<noteq> None"
      by (simp add: calls_uuidv4_def)
    then have "snd (guarded [authenticate env (req_apiKey req), validateProduct (req_body req)]
                      products (post_handler uuid (req_body req) products)) = products"
      by (auto simp: guarded_def)
    with Some hp CreateRoute show ?thesis
      by (simp add: dispatch_def logger_def run_route_def)
  next
    case UpdateRoute
    with Some hp
      guarded_cases [of "[authenticate env (req_apiKey req),
                          validateProductUpdate (req_body req)]"
        products "put_handler (the (params ''id'')) (req_body req) products"]
    show ?thesis
      by (auto simp: dispatch_def logger_def run_route_def product_ids_put)
  next
    case DeleteRoute
    with Some hp
      guarded_cases [of "[authenticate env (req_apiKey req)]"
        products "delete_handler (the (params ''id'')) products"]
      set_product_ids_delete [of "the (params ''id'')" products]
      product_ids_delete [of products "the (params ''id'')"]
    show ?thesis
      by (auto simp: dispatch_def logger_def run_route_def)
  qed (use Some hp in \<open>auto simp: dispatch_def logger_def run_route_def\<close>)
qed

lemma uuid_v4_not_seed: "uuid_v4 u \<Longrightarrow> u \<noteq> ''1'' \<and> u \<noteq> ''2'' \<and> u \<noteq> ''3''"
  by (auto simp: uuid_v4_def)

text \<open>
  What the service holds after any sequence of requests: pairwise distinct identifiers,
  each a seed identifier or one the generator has issued.
\<close>

lemma served_ids:
  "served env issued products \<Longrightarrow>
   distinct (product_ids products) \<and>
   set (product_ids products) \<subseteq> Str ` ({''1'', ''2'', ''3''} \<union> set issued)"
proof (induction rule: served.induct)
  case served_seed
  show ?case
    by (simp add: seed_ids)
next
  case (served_step issued products req uuid)
  show ?case
  proof (cases "calls_uuidv4 env req")
    case True
    with served_step.hyps(2) have "uuid_v4 uuid" "uuid \<notin> set issued"
      by simp_all
    with uuid_v4_not_seed [of uuid] served_step.IH
    have "Str uuid \<notin> set (product_ids products)"
      by auto
    with True served_step.IH show ?thesis
      by (auto simp: dispatch_create product_ids_post)
  next
    case False
    from dispatch_no_create [OF False, of uuid products] False served_step.IH show ?thesis
      by auto
  qed
qed

text \<open>
  Claim C5. Let the service hold \<open>products\<close> after some sequence of requests, and let
  \<^verbatim>\<open>uuidv4()\<close> return an identifier it has not returned before. Then the create
  handler builds the new product from the body with that identifier, which no stored
  product has, appends it at the end of the collection and answers 201 with that very
  record; this is the answer to every request that is routed to \<^verbatim>\<open>POST /\<close> and passes
  authentication and validation. The stored identifiers are pairwise distinct, and
  they remain so after the creation, after any update or deletion, and after any
  request whatever.
\<close>

theorem create_identifier_unique:
  assumes "served env issued products"
    and "uuid_v4 uuid"
    and "uuid \<notin> set issued"
  shows "\<exists>newProduct.
     post_handler uuid (req_body req) products =
       (Respond (Response 201 (MessageReply ''Product created successfully'' newProduct)),
        products @ [newProduct])
     \<and> field newProduct ''id'' = Str uuid
     \<and> field newProduct ''name'' = field (req_body req) ''name''
     \<and> field newProduct ''description'' = field (req_body req) ''description''
     \<and> field newProduct ''price'' = Num (parseFloat (field (req_body req) ''price''))
     \<and> field newProduct ''category'' = field (req_body req) ''category''
     \<and> field newProduct ''inStock'' = Bool (truthy (field (req_body req) ''inStock''))
     \<and> Str uuid \<notin> set (product_ids products)
     \<and> (calls_uuidv4 env req \<longrightarrow>
          dispatch env uuid req products =
            (Response 201 (MessageReply ''Product created successfully'' newProduct),
             products @ [newProduct]))
     \<and> distinct (product_ids products)
     \<and> distinct (product_ids (products @ [newProduct]))
     \<and> distinct (product_ids (snd (put_handler pid patch products)))
     \<and> distinct (product_ids (snd (delete_handler pid products)))
     \<and> distinct (product_ids (snd (dispatch env uuid req products)))"
proof -
  let ?new = "[''id'' \<mapsto> Str uuid,
               ''name'' \<mapsto> field (req_body req) ''name'',
               ''description'' \<mapsto> field (req_body req) ''description'',
               ''price'' \<mapsto> Num (parseFloat (field (req_body req) ''price'')),
               ''category'' \<mapsto> field (req_body req) ''category'',
               ''inStock'' \<mapsto> toBoolean (field (req_body req) ''inStock'')]"
  have post: "post_handler uuid (req_body req) products =
       (Respond (Response 201 (MessageReply ''Product created successfully'' ?new)),
        products @ [?new])"
    by (simp add: post_handler_def Let_def)
  have id: "field ?new ''id'' = Str uuid"
    and name: "field ?new ''name'' = field (req_body req) ''name''"
    and description: "field ?new ''description'' = field (req_body req) ''description''"
    and price: "field ?new ''price'' = Num (parseFloat (field (req_body req) ''price''))"
    and category: "field ?new ''category'' = field (req_body req) ''category''"
    and inStock: "field ?new ''inStock'' = Bool (truthy (field (req_body req) ''inStock''))"
    by (simp_all add: field_def toBoolean_def)
  from served_ids [OF assms(1)]
  have ids: "distinct (product_ids products)"
    "set (product_ids products) \<subseteq> Str ` ({''1'', ''2'', ''3''} \<union> set issued)"
    by auto
  from uuid_v4_not_seed [OF assms(2)] assms(3) ids(2)
  have fresh: "Str uuid \<notin> set (product_ids products)"
    by auto
  have routed: "calls_uuidv4 env req \<longrightarrow>
          dispatch env uuid req products =
            (Response 201 (MessageReply ''Product created successfully'' ?new),
             products @ [?new])"
    by (simp add: dispatch_create post finish_def)
  have "product_ids (products @ [?new]) = product_ids products @ [Str uuid]"
    by (simp add: product_ids_def field_def)
  with ids(1) fresh have after_post: "distinct (product_ids (products @ [?new]))"
    by simp
  from ids(1) have after_put: "distinct (product_ids (snd (put_handler pid patch products)))"
    by (simp add: product_ids_put)
  from ids(1) have after_delete: "distinct (product_ids (snd (delete_handler pid products)))"
    by (rule product_ids_delete)
  from assms(2,3) have "calls_uuidv4 env req \<longrightarrow> uuid_v4 uuid \<and> uuid \<notin> set issued"
    by simp
  from served_ids [OF served_step [OF assms(1) this]]
  have after_any: "distinct (product_ids (snd (dispatch env uuid req products)))"
    by simp
  from post id name description price category inStock fresh routed ids(1) after_post
    after_put after_delete after_any
  show ?thesis
    by (intro exI [of _ ?new] conjI)
qed

text \<open>Two creations in a row, starting from the seed data, the generator returning a
  different identifier each time.\<close>

theorem create_identifier_unique_witness:
  "product_ids
     (snd (dispatch None ''22222222-2222-4222-8222-222222222222''
        (Request POST [] Map.empty (Some ''secret-key-123'')
           [''name'' \<mapsto> Str ''Ink'', ''description'' \<mapsto> Str ''Black ink'',
            ''price'' \<mapsto> Num (Fin 2.5), ''category'' \<mapsto> Str ''Office''])
        (snd (dispatch None ''11111111-1111-4111-8111-111111111111''
           (Request POST [] Map.empty (Some ''secret-key-123'')
              [''name'' \<mapsto> Str ''Pen'', ''description'' \<mapsto> Str ''Blue ink'',
               ''price'' \<mapsto> Num (Fin 1.5), ''category'' \<mapsto> Str ''Office''])
           seed_products)))) =
     [Str ''1'', Str ''2'', Str ''3'', Str ''11111111-1111-4111-8111-111111111111'',
      Str ''22222222-2222-4222-8222-222222222222'']
   \<and> distinct (product_ids
     (snd (dispatch None ''22222222-2222-4222-8222-222222222222''
        (Request POST [] Map.empty (Some ''secret-key-123'')
           [''name'' \<mapsto> Str ''Ink'', ''description'' \<mapsto> Str ''Black ink'',
            ''price'' \<mapsto> Num (Fin 2.5), ''category'' \<mapsto> Str ''Office''])
        (snd (dispatch None ''11111111-1111-4111-8111-111111111111''
           (Request POST [] Map.empty (Some ''secret-key-123'')
              [''name'' \<mapsto> Str ''Pen'', ''description'' \<mapsto> Str ''Blue ink'',
               ''price'' \<mapsto> Num (Fin 1.5), ''category'' \<mapsto> Str ''Office''])
           seed_products)))))"
proof -
  let ?u1 = "''11111111-1111-4111-8111-111111111111''"
  let ?u2 = "''22222222-2222-4222-8222-222222222222''"
  let ?pen = "Request POST [] Map.empty (Some ''secret-key-123'')
                [''name'' \<mapsto> Str ''Pen'', ''description'' \<mapsto> Str ''Blue ink'',
                 ''price'' \<mapsto> Num (Fin 1.5), ''category'' \<mapsto> Str ''Office'']"
  let ?ink = "Request POST [] Map.empty (Some ''secret-key-123'')
                [''name'' \<mapsto> Str ''Ink'', ''description'' \<mapsto> Str ''Black ink'',
                 ''price'' \<mapsto> Num (Fin 2.5), ''category'' \<mapsto> Str ''Office'']"
  let ?store = "snd (dispatch None ?u1 ?pen seed_products)"
  have u1: "uuid_v4 ?u1" and u2: "uuid_v4 ?u2"
    by (simp_all add: uuid_v4_def uuid_char_ok_def)
  have pen: "calls_uuidv4 None ?pen"
    by (simp add: calls_uuidv4_def select_route_def routes_def handles_method_def
        authenticate_def validApiKey_def validateProduct_def validation_failure_def field_def
        string_field_bad_def price_field_bad_def isNaN_def trim_def is_space_def)
  have ink: "calls_uuidv4 None ?ink"
    by (simp add: calls_uuidv4_def select_route_def routes_def handles_method_def
        authenticate_def validApiKey_def validateProduct_def validation_failure_def field_def
        string_field_bad_def price_field_bad_def isNaN_def trim_def is_space_def)
  from u1 have "calls_uuidv4 None ?pen \<longrightarrow> uuid_v4 ?u1 \<and> ?u1 \<notin> set []"
    by simp
  from served_step [OF served_seed this]
  have "served None (if calls_uuidv4 None ?pen then [?u1] else []) ?store" .
  with pen have held: "served None [?u1] ?store"
    by simp
  have new: "?u2 \<notin> set [?u1]"
    by simp
  have first: "product_ids ?store = [Str ''1'', Str ''2'', Str ''3'', Str ?u1]"
    by (simp only: dispatch_create [OF pen] product_ids_post seed_ids snd_conv append.simps)
  from create_identifier_unique [where req = ?ink, OF held u2 new]
  have "distinct (product_ids (snd (dispatch None ?u2 ?ink ?store)))"
    by blast
  moreover have "product_ids (snd (dispatch None ?u2 ?ink ?store)) =
                 [Str ''1'', Str ''2'', Str ''3'', Str ?u1, Str ?u2]"
    by (simp only: dispatch_create [OF ink] product_ids_post first snd_conv append.simps)
  ultimately show ?thesis
    by (intro conjI)
qed

end
